theory Spec2Isabelle
  imports Complex_Main
begin

section \<open>Numbers, errors and the runtime\<close>

text \<open>
  The program is \<^verbatim>\<open>src/main.py\<close>. A number of the program is a Python \<^verbatim>\<open>int\<close>, a Python
  \<^verbatim>\<open>float\<close> or a numpy \<^verbatim>\<open>float64\<close> (what the price history holds); its value is a real
  number, an infinity or NaN. The kind is kept because the runtime treats the kinds
  differently: integer arithmetic is exact, float arithmetic rounds, and \<^verbatim>\<open>round\<close> is
  Python's for the one and numpy's for the other.
\<close>

datatype kind = PyInt | PyFloat | NpFloat

datatype fval = Fin real | PosInf | NegInf | NaN

datatype num = Num (kind_of: kind) (fv: fval)

datatype pyval = PNone | PNum num

datatype error =
  ValueError | TypeError | OverflowError | ZeroDivisionError | ProviderError | TransportError

text \<open>
  Comparison is by value and exact, whatever the kinds; every comparison with NaN is
  false.
\<close>

fun fval_lt :: "fval \<Rightarrow> fval \<Rightarrow> bool" where
  "fval_lt NaN b = False"
| "fval_lt a NaN = False"
| "fval_lt (Fin a) (Fin b) = (a < b)"
| "fval_lt a NegInf = False"
| "fval_lt NegInf b = True"
| "fval_lt PosInf b = False"
| "fval_lt a PosInf = True"

definition fval_le :: "fval \<Rightarrow> fval \<Rightarrow> bool" where
  "fval_le a b = (a \<noteq> NaN \<and> b \<noteq> NaN \<and> \<not> fval_lt b a)"

definition num_lt :: "num \<Rightarrow> num \<Rightarrow> bool" where
  "num_lt a b = fval_lt (fv a) (fv b)"

definition num_ge :: "num \<Rightarrow> num \<Rightarrow> bool" where
  "num_ge a b = fval_le (fv b) (fv a)"

text \<open>Python truthiness of a number or \<^verbatim>\<open>None\<close> (NaN is true), and \<^verbatim>\<open>a or b\<close>.\<close>

fun truthy :: "pyval \<Rightarrow> bool" where
  "truthy PNone = False"
| "truthy (PNum x) = (fv x \<noteq> Fin 0)"

definition py_or :: "pyval \<Rightarrow> pyval \<Rightarrow> pyval" where
  "py_or a b = (if truthy a then a else b)"

text \<open>
  \<^verbatim>\<open>int(x)\<close> truncates towards zero; it raises \<^verbatim>\<open>ValueError\<close> on NaN and
  \<^verbatim>\<open>OverflowError\<close> on an infinity.
\<close>

fun py_int :: "num \<Rightarrow> error + num" where
  "py_int (Num k (Fin x)) =
     Inr (Num PyInt (Fin (if 0 \<le> x then of_int \<lfloor>x\<rfloor> else of_int \<lceil>x\<rceil>)))"
| "py_int (Num k NaN) = Inl ValueError"
| "py_int (Num k PosInf) = Inl OverflowError"
| "py_int (Num k NegInf) = Inl OverflowError"

text \<open>
  The runtime's arithmetic is a parameter of the model: subtraction, multiplication and
  true division of two numbers, \<^verbatim>\<open>round(x, 2)\<close>, and \<^verbatim>\<open>str.upper\<close>. Each arithmetic
  operation returns a number or raises (an \<^verbatim>\<open>int\<close> too large for a \<^verbatim>\<open>float\<close> raises
  \<^verbatim>\<open>OverflowError\<close>). Nothing is assumed of these operations, so what is proved holds
  for IEEE double arithmetic with either rounding function as for any other.
\<close>

record runtime =
  sub_op :: "num \<Rightarrow> num \<Rightarrow> error + num"
  mul_op :: "num \<Rightarrow> num \<Rightarrow> error + num"
  div_op :: "num \<Rightarrow> num \<Rightarrow> error + num"
  round_op :: "num \<Rightarrow> error + num"
  upper_op :: "string \<Rightarrow> string"

text \<open>
  \<^verbatim>\<open>round(x, 2)\<close>. One fact about it is built in: a zero of any kind is returned as it
  is.
\<close>

definition round_py :: "runtime \<Rightarrow> num \<Rightarrow> error + num" where
  "round_py rt x = (if fv x = Fin 0 then Inr x else round_op rt x)"

text \<open>Sequencing of steps that may raise.\<close>

definition bind_err :: "error + 'a \<Rightarrow> ('a \<Rightarrow> error + 'b) \<Rightarrow> error + 'b" where
  "bind_err m f = (case m of Inl e \<Rightarrow> Inl e | Inr x \<Rightarrow> f x)"

section \<open>Configuration records and snapshots\<close>

record StockConfig =
  symbol :: string
  company_name :: string
  quantity_factor :: num
  loan_outstanding :: num
  security_cover_threshold :: num

record SenderConfig =
  from_email :: string
  from_name :: string
  smtp_host :: string
  smtp_port :: int
  smtp_username :: string
  smtp_password :: string
  use_tls :: bool

record RecipientConfig =
  email :: string
  subscribed_symbols :: "string list"
  name :: string
  cc :: "string list"
  bcc :: "string list"
  alert_preferences :: "string \<rightharpoonup> bool"

text \<open>
  \<^verbatim>\<open>RecipientConfig.__post_init__\<close>: an omitted \<^verbatim>\<open>cc\<close>, \<^verbatim>\<open>bcc\<close> or
  \<^verbatim>\<open>alert_preferences\<close> gets its default.
\<close>

definition default_alert_preferences :: "string \<rightharpoonup> bool" where
  "default_alert_preferences =
     [''scheduled_reports'' \<mapsto> True, ''threat_alerts'' \<mapsto> True, ''manual_alerts'' \<mapsto> True]"

definition post_init ::
  "string \<Rightarrow> string list \<Rightarrow> string \<Rightarrow> string list option \<Rightarrow> string list option \<Rightarrow>
   (string \<rightharpoonup> bool) option \<Rightarrow> RecipientConfig" where
  "post_init e subs nm cc_opt bcc_opt prefs_opt =
     \<lparr> email = e, subscribed_symbols = subs, name = nm,
       cc = (case cc_opt of None \<Rightarrow> [] | Some c \<Rightarrow> c),
       bcc = (case bcc_opt of None \<Rightarrow> [] | Some b \<Rightarrow> b),
       alert_preferences =
         (case prefs_opt of None \<Rightarrow> default_alert_preferences | Some p \<Rightarrow> p) \<rparr>"

text \<open>\<^verbatim>\<open>alert_prefs.get(key, True)\<close>.\<close>

definition pref_get :: "(string \<rightharpoonup> bool) \<Rightarrow> string \<Rightarrow> bool" where
  "pref_get prefs k = (case prefs k of None \<Rightarrow> True | Some b \<Rightarrow> b)"

text \<open>
  The snapshot dictionary built by \<^verbatim>\<open>get_stock_data\<close>. Its consumers read it with
  \<^verbatim>\<open>.get(key, default)\<close>, so a key they read may be absent: such a field is an
  option, \<open>None\<close> meaning that the key is not in the dictionary.
\<close>

record stock_data =
  d_symbol :: "string option"
  d_current_price :: "num option"
  d_previous_close :: "num option"
  d_yesterday_close :: "num option"
  d_change :: "num option"
  d_change_percent :: "num option"
  d_yesterday_change :: "num option"
  d_yesterday_change_percent :: "num option"
  d_volume :: pyval
  d_timestamp :: string
  d_market_cap :: pyval
  d_pe_ratio :: pyval
  d_52_week_high :: pyval
  d_52_week_low :: pyval
  d_security_cover :: "num option"

text \<open>\<^verbatim>\<open>d.get(key, default)\<close> on such a field.\<close>

definition dict_get :: "'a option \<Rightarrow> 'a \<Rightarrow> 'a" where
  "dict_get field dflt = (case field of None \<Rightarrow> dflt | Some v \<Rightarrow> v)"

section \<open>The snapshot fetch: \<^verbatim>\<open>StockPriceMonitor\<close>\<close>

text \<open>
  What the market-data provider hands back for one symbol: the \<^verbatim>\<open>info\<close>
  dictionary, the \<^verbatim>\<open>Close\<close> column of the five-day daily history and the
  \<^verbatim>\<open>(Close, Volume)\<close> rows of the one-day minute history. A provider call that
  raises is \<open>Inl\<close>.
\<close>

record provider_data =
  info :: "string \<rightharpoonup> pyval"
  hist_5d :: "num list"
  hist_1d :: "(num \<times> num) list"

type_synonym provider_result = "error + provider_data"

text \<open>\<^verbatim>\<open>info.get(key)\<close>: a missing key reads as \<^verbatim>\<open>None\<close>.\<close>

definition info_get :: "(string \<rightharpoonup> pyval) \<Rightarrow> string \<Rightarrow> pyval" where
  "info_get i k = (case i k of None \<Rightarrow> PNone | Some v \<Rightarrow> v)"

text \<open>The "current price logic" of \<^verbatim>\<open>get_stock_data\<close>: price and volume.\<close>

definition current_price_logic :: "provider_data \<Rightarrow> error + (num \<times> pyval)" where
  "current_price_logic p =
     (if hist_1d p = [] then
        (case py_or (info_get (info p) ''currentPrice'') (info_get (info p) ''previousClose'') of
           PNone \<Rightarrow> Inl ValueError
         | PNum current_price \<Rightarrow>
             if \<not> truthy (PNum current_price) then Inl ValueError
             else Inr (current_price,
                       (case info p ''volume'' of None \<Rightarrow> PNum (Num PyInt (Fin 0)) | Some v \<Rightarrow> v)))
      else
        bind_err (py_int (snd (last (hist_1d p))))
          (\<lambda>current_volume. Inr (fst (last (hist_1d p)), PNum current_volume)))"

text \<open>
  \<^verbatim>\<open>(change / base) * 100 if base else 0\<close>, as it is written for the day change and
  for the prior-day change.
\<close>

definition change_percent :: "runtime \<Rightarrow> num \<Rightarrow> num \<Rightarrow> error + num" where
  "change_percent rt change base =
     (if truthy (PNum base)
      then bind_err (div_op rt change base) (\<lambda>q. mul_op rt q (Num PyInt (Fin 100)))
      else Inr (Num PyInt (Fin 0)))"

text \<open>
  \<^verbatim>\<open>security_cover = 0.0\<close>, replaced by
  \<^verbatim>\<open>(quantity_factor * current_price) / loan_outstanding\<close> when the loan is positive.
\<close>

definition cover_ratio :: "runtime \<Rightarrow> StockConfig \<Rightarrow> num \<Rightarrow> error + num" where
  "cover_ratio rt stock_config current_price =
     (if num_lt (Num PyInt (Fin 0)) (loan_outstanding stock_config)
      then bind_err (mul_op rt (quantity_factor stock_config) current_price)
             (\<lambda>x. div_op rt x (loan_outstanding stock_config))
      else Inr (Num PyFloat (Fin 0)))"

text \<open>
  \<^verbatim>\<open>yesterday_change\<close> and \<^verbatim>\<open>yesterday_change_percent\<close>: 0.0 both, replaced when
  the daily history has three bars.
\<close>

definition prior_day_change :: "runtime \<Rightarrow> num list \<Rightarrow> num \<Rightarrow> error + (num \<times> num)" where
  "prior_day_change rt hist yesterday_close =
     (if hist \<noteq> [] \<and> 3 \<le> length hist then
        (let day_before_yesterday = hist ! (length hist - 3)
         in bind_err (sub_op rt yesterday_close day_before_yesterday)
              (\<lambda>yesterday_change.
                 bind_err (change_percent rt yesterday_change day_before_yesterday)
                   (\<lambda>yesterday_change_percent.
                      Inr (yesterday_change, yesterday_change_percent))))
      else Inr (Num PyFloat (Fin 0), Num PyFloat (Fin 0)))"

text \<open>
  The second half of the \<^verbatim>\<open>try\<close> block, where the price and the two closes are
  numbers: the changes, the cover ratio and the dictionary with its rounded figures, in
  the order of the source.
\<close>

definition build_snapshot ::
  "runtime \<Rightarrow> StockConfig \<Rightarrow> string \<Rightarrow> provider_data \<Rightarrow> num \<Rightarrow> pyval \<Rightarrow> num \<Rightarrow> num \<Rightarrow>
   error + stock_data" where
  "build_snapshot rt stock_config now p current_price current_volume yesterday_close prev_close =
     bind_err (sub_op rt current_price prev_close) (\<lambda>current_change.
     bind_err (change_percent rt current_change prev_close) (\<lambda>current_change_percent.
     bind_err (prior_day_change rt (hist_5d p) yesterday_close)
       (\<lambda>(yesterday_change, yesterday_change_percent).
     bind_err (cover_ratio rt stock_config current_price) (\<lambda>security_cover.
     bind_err (round_py rt current_price) (\<lambda>r_current_price.
     bind_err (round_py rt prev_close) (\<lambda>r_previous_close.
     bind_err (round_py rt yesterday_close) (\<lambda>r_yesterday_close.
     bind_err (round_py rt current_change) (\<lambda>r_change.
     bind_err (round_py rt current_change_percent) (\<lambda>r_change_percent.
     bind_err (round_py rt yesterday_change) (\<lambda>r_yesterday_change.
     bind_err (round_py rt yesterday_change_percent) (\<lambda>r_yesterday_change_percent.
     bind_err (round_py rt security_cover) (\<lambda>r_security_cover.
       Inr \<lparr> d_symbol = Some (symbol stock_config),
             d_current_price = Some r_current_price,
             d_previous_close = Some r_previous_close,
             d_yesterday_close = Some r_yesterday_close,
             d_change = Some r_change,
             d_change_percent = Some r_change_percent,
             d_yesterday_change = Some r_yesterday_change,
             d_yesterday_change_percent = Some r_yesterday_change_percent,
             d_volume = current_volume,
             d_timestamp = now,
             d_market_cap = info_get (info p) ''marketCap'',
             d_pe_ratio = info_get (info p) ''trailingPE'',
             d_52_week_high = info_get (info p) ''fiftyTwoWeekHigh'',
             d_52_week_low = info_get (info p) ''fiftyTwoWeekLow'',
             d_security_cover = Some r_security_cover \<rparr>))))))))))))"

text \<open>
  The body of the \<^verbatim>\<open>try\<close> block once the provider has answered: the price, the
  previous close and yesterday's close, then the rest. Subtracting \<^verbatim>\<open>None\<close> from the
  price raises \<^verbatim>\<open>TypeError\<close>.
\<close>

definition compute_stock_data ::
  "runtime \<Rightarrow> StockConfig \<Rightarrow> string \<Rightarrow> provider_data \<Rightarrow> error + stock_data" where
  "compute_stock_data rt stock_config now p =
     bind_err (current_price_logic p) (\<lambda>(current_price, current_volume).
       let n = length (hist_5d p);
           prev_close0 = (case info p ''previousClose'' of
                            None \<Rightarrow> PNum current_price | Some v \<Rightarrow> v);
           (yesterday_close1, prev_close1) =
             (if hist_5d p \<noteq> [] \<and> 2 \<le> n
              then (PNum (hist_5d p ! (n - 2)), PNum (hist_5d p ! (n - 1)))
              else (prev_close0, prev_close0))
       in (case (yesterday_close1, prev_close1) of
             (PNum yesterday_close, PNum prev_close) \<Rightarrow>
               build_snapshot rt stock_config now p current_price current_volume
                 yesterday_close prev_close
           | _ \<Rightarrow> Inl TypeError))"

text \<open>
  The monitor's state: the snapshot cache and the time of each symbol's last update.
\<close>

record monitor =
  cache :: "string \<rightharpoonup> stock_data"
  last_update :: "string \<rightharpoonup> string"

text \<open>
  \<^verbatim>\<open>get_stock_data\<close>: a fresh snapshot is cached and returned; on any exception
  the cached snapshot is returned if there is one, else the exception is raised again.
\<close>

definition try_body ::
  "runtime \<Rightarrow> StockConfig \<Rightarrow> string \<Rightarrow> provider_result \<Rightarrow> error + stock_data" where
  "try_body rt stock_config now resp =
     (case resp of Inl e \<Rightarrow> Inl e | Inr p \<Rightarrow> compute_stock_data rt stock_config now p)"

definition get_stock_data ::
  "runtime \<Rightarrow> monitor \<Rightarrow> StockConfig \<Rightarrow> string \<Rightarrow> provider_result \<Rightarrow>
   (error + stock_data) \<times> monitor" where
  "get_stock_data rt m stock_config now resp =
     (case try_body rt stock_config now resp of
        Inr data \<Rightarrow>
          (Inr data, m\<lparr> cache := (cache m)(symbol stock_config \<mapsto> data),
                        last_update := (last_update m)(symbol stock_config \<mapsto> now) \<rparr>)
      | Inl e \<Rightarrow>
          (case cache m (symbol stock_config) of
             Some cached \<Rightarrow> (Inr cached, m)
           | None \<Rightarrow> (Inl e, m)))"

text \<open>
  \<^verbatim>\<open>check_multiple_stocks\<close>. \<^verbatim>\<open>asyncio.gather\<close> starts one task per instrument;
  \<^verbatim>\<open>get_stock_data\<close> never awaits, so the tasks run one after the other in list
  order, each on the cache its predecessors left. \<open>provider i s\<close> is the provider's
  answer to the \<open>i\<close>-th call of the batch, made for symbol \<open>s\<close>.
\<close>

type_synonym provider = "nat \<Rightarrow> string \<Rightarrow> provider_result"

fun gather ::
  "runtime \<Rightarrow> monitor \<Rightarrow> string \<Rightarrow> provider \<Rightarrow> nat \<Rightarrow> StockConfig list \<Rightarrow>
   (error + stock_data) list \<times> monitor" where
  "gather rt m now prov i [] = ([], m)"
| "gather rt m now prov i (sc # scs) =
     (let (r, m1) = get_stock_data rt m sc now (prov i (symbol sc));
          (rs, m2) = gather rt m1 now prov (Suc i) scs
      in (r # rs, m2))"

text \<open>
  The loop over \<^verbatim>\<open>zip(stock_configs, results)\<close>: an exception is replaced by the
  cached snapshot when the cache has one, and dropped otherwise.
\<close>

fun collect_results ::
  "(string \<rightharpoonup> stock_data) \<Rightarrow> (StockConfig \<times> (error + stock_data)) list \<Rightarrow>
   (string \<rightharpoonup> stock_data) \<Rightarrow> (string \<rightharpoonup> stock_data)" where
  "collect_results c [] stock_data_map = stock_data_map"
| "collect_results c ((sc, Inl e) # rest) stock_data_map =
     collect_results c rest
       (case c (symbol sc) of
          Some cached \<Rightarrow> stock_data_map(symbol sc \<mapsto> cached)
        | None \<Rightarrow> stock_data_map)"
| "collect_results c ((sc, Inr result) # rest) stock_data_map =
     collect_results c rest (stock_data_map(symbol sc \<mapsto> result))"

definition check_multiple_stocks ::
  "runtime \<Rightarrow> monitor \<Rightarrow> string \<Rightarrow> provider \<Rightarrow> StockConfig list \<Rightarrow>
   (string \<rightharpoonup> stock_data) \<times> monitor" where
  "check_multiple_stocks rt m now prov stock_configs =
     (let (results, m1) = gather rt m now prov 0 stock_configs
      in (collect_results (cache m1) (zip stock_configs results) Map.empty, m1))"

section \<open>The dispatcher: \<^verbatim>\<open>EmailService\<close>\<close>

text \<open>
  \<^verbatim>\<open>next((sc for sc in configs if sc.symbol == symbol), None)\<close>, where
  \<^verbatim>\<open>symbol = stock_data.get("symbol")\<close> is \<^verbatim>\<open>None\<close> for a snapshot without the key.
\<close>

definition config_for :: "StockConfig list \<Rightarrow> stock_data \<Rightarrow> StockConfig option" where
  "config_for configs data = find (\<lambda>sc. Some (symbol sc) = d_symbol data) configs"

text \<open>
  One rendered block of \<^verbatim>\<open>format_grouped_alert\<close>: the decisions and the values that
  go into the HTML template. The markup itself, the number formatting and the generation
  time are left out; the document is the list of its blocks, in input order.
\<close>

record block =
  header_text :: string
  header_style :: string
  cover_style :: string
  current_price_val :: num
  previous_close_val :: num
  yesterday_close_val :: num
  current_change_val :: num
  current_change_percent_val :: num
  yesterday_change_val :: num
  yesterday_change_percent_val :: num
  security_cover_val :: num
  required_cover_val :: num
  current_change_color :: string
  yesterday_change_color :: string
  current_change_sign :: string
  yesterday_change_sign :: string

definition render_block :: "stock_data \<Rightarrow> StockConfig \<Rightarrow> block" where
  "render_block data stock_config =
     (let is_cover_breached =
            num_lt (dict_get (d_security_cover data) (Num PyInt (Fin 999)))
                   (security_cover_threshold stock_config);
          symbol_val = dict_get (d_symbol data) [];
          cur = dict_get (d_change data) (Num PyFloat (Fin 0));
          yes = dict_get (d_yesterday_change data) (Num PyFloat (Fin 0))
      in \<lparr> header_text =
             (if is_cover_breached
              then ''ATTENTION: '' @ company_name stock_config @ '' ('' @ symbol_val @ '')''
              else ''Update for '' @ company_name stock_config @ '' ('' @ symbol_val @ '')''),
           header_style = (if is_cover_breached then ''color: red;'' else ''color: blue;''),
           cover_style = (if is_cover_breached then ''color: red; font-weight: bold;'' else []),
           current_price_val = dict_get (d_current_price data) (Num PyFloat (Fin 0)),
           previous_close_val = dict_get (d_previous_close data) (Num PyFloat (Fin 0)),
           yesterday_close_val = dict_get (d_yesterday_close data) (Num PyFloat (Fin 0)),
           current_change_val = cur,
           current_change_percent_val = dict_get (d_change_percent data) (Num PyFloat (Fin 0)),
           yesterday_change_val = yes,
           yesterday_change_percent_val =
             dict_get (d_yesterday_change_percent data) (Num PyFloat (Fin 0)),
           security_cover_val = dict_get (d_security_cover data) (Num PyFloat (Fin 0)),
           required_cover_val = security_cover_threshold stock_config,
           current_change_color =
             (if num_ge cur (Num PyInt (Fin 0)) then ''green'' else ''red''),
           yesterday_change_color =
             (if num_ge yes (Num PyInt (Fin 0)) then ''green'' else ''red''),
           current_change_sign = (if num_ge cur (Num PyInt (Fin 0)) then ''+'' else []),
           yesterday_change_sign = (if num_ge yes (Num PyInt (Fin 0)) then ''+'' else []) \<rparr>)"

fun format_grouped_alert :: "stock_data list \<Rightarrow> StockConfig list \<Rightarrow> string \<Rightarrow> block list" where
  "format_grouped_alert [] all_stock_configs currency_symbol = []"
| "format_grouped_alert (data # rest) all_stock_configs currency_symbol =
     (case config_for all_stock_configs data of
        None \<Rightarrow> format_grouped_alert rest all_stock_configs currency_symbol
      | Some stock_config \<Rightarrow>
          render_block data stock_config
            # format_grouped_alert rest all_stock_configs currency_symbol)"

text \<open>
  The message handed to the mail transport, and \<^verbatim>\<open>_send_smtp_email\<close>: one
  authenticated delivery to the recipient, the cc and the bcc addresses. \<open>transport k\<close>
  is what the transport does at the \<open>k\<close>-th send of the run: \<open>Some e\<close> when it
  raises \<open>e\<close>.
\<close>

record mime_msg =
  msg_subject :: string
  msg_from :: string
  msg_to :: string
  msg_cc :: "string option"
  msg_html :: "block list"

type_synonym transport = "nat \<Rightarrow> SenderConfig \<Rightarrow> mime_msg \<Rightarrow> string list \<Rightarrow> error option"

fun join :: "string \<Rightarrow> string list \<Rightarrow> string" where
  "join sep [] = []"
| "join sep [x] = x"
| "join sep (x # y # ys) = x @ sep @ join sep (y # ys)"

definition send_smtp_email ::
  "SenderConfig \<Rightarrow> transport \<Rightarrow> nat \<Rightarrow> mime_msg \<Rightarrow> RecipientConfig \<Rightarrow> error + unit" where
  "send_smtp_email config tr k msg recipient_config =
     (let all_recipients = [email recipient_config] @ cc recipient_config @ bcc recipient_config
      in case tr k config msg all_recipients of Some e \<Rightarrow> Inl e | None \<Rightarrow> Inr ())"

text \<open>
  What one call of \<^verbatim>\<open>send_alert\<close> did, as its log line tells: nothing for want of a
  password, a delivery, or a failed delivery. The call itself is recorded with its
  recipient and subject.
\<close>

datatype outcome = NotConfigured | Delivered | DeliveryFailed error

record send_call =
  call_recipient :: RecipientConfig
  call_subject :: string
  call_content :: "block list"
  call_outcome :: outcome

definition send_alert ::
  "SenderConfig \<Rightarrow> transport \<Rightarrow> nat \<Rightarrow> RecipientConfig \<Rightarrow> string \<Rightarrow> block list \<Rightarrow>
   error + send_call" where
  "send_alert config tr k recipient_config subject content =
     (if smtp_password config = [] then
        Inr \<lparr> call_recipient = recipient_config, call_subject = subject,
              call_content = content, call_outcome = NotConfigured \<rparr>
      else
        let msg = \<lparr> msg_subject = subject,
                    msg_from = from_name config @ '' <'' @ from_email config @ ''>'',
                    msg_to = email recipient_config,
                    msg_cc = (if cc recipient_config \<noteq> []
                              then Some (join '', '' (cc recipient_config)) else None),
                    msg_html = content \<rparr>
        in (case send_smtp_email config tr k msg recipient_config of
              Inr u \<Rightarrow>
                Inr \<lparr> call_recipient = recipient_config, call_subject = subject,
                      call_content = content, call_outcome = Delivered \<rparr>
            | Inl e \<Rightarrow>
                Inr \<lparr> call_recipient = recipient_config, call_subject = subject,
                      call_content = content, call_outcome = DeliveryFailed e \<rparr>))"

section \<open>The pipeline: \<^verbatim>\<open>StockWatchdog\<close>\<close>

text \<open>
  The recipient's snapshots: \<^verbatim>\<open>fetched_stock_data_map[symbol]\<close> for each subscribed
  symbol that is in the map, in subscription order.
\<close>

fun recipient_stock_data :: "(string \<rightharpoonup> stock_data) \<Rightarrow> string list \<Rightarrow> stock_data list" where
  "recipient_stock_data fetched [] = []"
| "recipient_stock_data fetched (s # ss) =
     (case fetched s of
        Some data \<Rightarrow> data # recipient_stock_data fetched ss
      | None \<Rightarrow> recipient_stock_data fetched ss)"

text \<open>The loop that sets \<^verbatim>\<open>is_any_cover_breached\<close> and breaks at the first breach.\<close>

fun is_any_cover_breached :: "StockConfig list \<Rightarrow> stock_data list \<Rightarrow> bool" where
  "is_any_cover_breached all_stocks_config [] = False"
| "is_any_cover_breached all_stocks_config (data # rest) =
     (case config_for all_stocks_config data of
        Some stock_config \<Rightarrow>
          if num_lt (dict_get (d_security_cover data) (Num PyInt (Fin 999)))
                    (security_cover_threshold stock_config)
          then True
          else is_any_cover_breached all_stocks_config rest
      | None \<Rightarrow> is_any_cover_breached all_stocks_config rest)"

text \<open>
  The body of the loop over the recipients in \<^verbatim>\<open>_check_all_stocks\<close>, up to the
  decision: \<open>None\<close> where the loop goes on to the next recipient without sending,
  the subject and the rendered content where it sends.
\<close>

definition recipient_decision ::
  "(string \<rightharpoonup> stock_data) \<Rightarrow> StockConfig list \<Rightarrow> string \<Rightarrow> bool \<Rightarrow> bool \<Rightarrow>
   RecipientConfig \<Rightarrow> (string \<times> block list) option" where
  "recipient_decision fetched all_stocks_config currency_symbol is_scheduled threat_only recipient =
     (let alert_prefs = alert_preferences recipient;
          should_send_scheduled = (is_scheduled \<and> pref_get alert_prefs ''scheduled_reports'');
          should_send_threat = (threat_only \<and> pref_get alert_prefs ''threat_alerts'')
      in if \<not> (should_send_scheduled \<or> should_send_threat) then None
         else
           let rsd = recipient_stock_data fetched (subscribed_symbols recipient)
           in if rsd = [] then None
              else
                let any_breached = is_any_cover_breached all_stocks_config rsd;
                    should_send_email_now =
                      ((should_send_scheduled \<and> \<not> threat_only)
                       \<or> (should_send_threat \<and> any_breached))
                in if should_send_email_now then
                     let subject0 = (if any_breached then ''BOT ALERT!'' else ''Stock Update'');
                         subject = (if is_scheduled then ''Scheduled Report - '' @ subject0
                                    else subject0);
                         email_content = format_grouped_alert rsd all_stocks_config currency_symbol
                     in Some (subject, email_content)
                   else None)"

text \<open>
  The loop itself. \<open>k\<close> counts the sends made so far. The loop sits in a \<^verbatim>\<open>try\<close>
  block whose handler logs and returns: an exception out of \<^verbatim>\<open>send_alert\<close> would end
  the loop there.
\<close>

fun process_recipients ::
  "SenderConfig \<Rightarrow> transport \<Rightarrow> (string \<rightharpoonup> stock_data) \<Rightarrow> StockConfig list \<Rightarrow> string \<Rightarrow>
   bool \<Rightarrow> bool \<Rightarrow> nat \<Rightarrow> RecipientConfig list \<Rightarrow> send_call list" where
  "process_recipients config tr fetched all_stocks_config currency_symbol
     is_scheduled threat_only k [] = []"
| "process_recipients config tr fetched all_stocks_config currency_symbol
     is_scheduled threat_only k (recipient # rest) =
     (case recipient_decision fetched all_stocks_config currency_symbol
             is_scheduled threat_only recipient of
        None \<Rightarrow>
          process_recipients config tr fetched all_stocks_config currency_symbol
            is_scheduled threat_only k rest
      | Some (subject, email_content) \<Rightarrow>
          (case send_alert config tr k recipient subject email_content of
             Inl e \<Rightarrow> []
           | Inr call \<Rightarrow>
               call # process_recipients config tr fetched all_stocks_config currency_symbol
                        is_scheduled threat_only (Suc k) rest))"

text \<open>
  \<^verbatim>\<open>_check_all_stocks\<close>: the configuration is read, the batch is fetched, the
  recipients are processed. The result is the list of \<^verbatim>\<open>send_alert\<close> calls made, in
  order, and the monitor's new state.
\<close>

record app_config =
  stocks :: "StockConfig list"
  recipients :: "RecipientConfig list"
  currency_symbol :: string
  email_sender :: SenderConfig

definition check_all_stocks ::
  "runtime \<Rightarrow> app_config \<Rightarrow> monitor \<Rightarrow> string \<Rightarrow> provider \<Rightarrow> transport \<Rightarrow> bool \<Rightarrow> bool \<Rightarrow>
   send_call list \<times> monitor" where
  "check_all_stocks rt cfg m now prov tr is_scheduled threat_only =
     (if stocks cfg = [] \<or> recipients cfg = [] then ([], m)
      else
        let (fetched_stock_data_map, m1) = check_multiple_stocks rt m now prov (stocks cfg)
        in (process_recipients (email_sender cfg) tr fetched_stock_data_map (stocks cfg)
              (currency_symbol cfg) is_scheduled threat_only 0 (recipients cfg),
            m1))"

definition scheduled_check ::
  "runtime \<Rightarrow> app_config \<Rightarrow> monitor \<Rightarrow> string \<Rightarrow> provider \<Rightarrow> transport \<Rightarrow>
   send_call list \<times> monitor" where
  "scheduled_check rt cfg m now prov tr = check_all_stocks rt cfg m now prov tr True False"

definition continuous_threat_check ::
  "runtime \<Rightarrow> app_config \<Rightarrow> monitor \<Rightarrow> string \<Rightarrow> provider \<Rightarrow> transport \<Rightarrow>
   send_call list \<times> monitor" where
  "continuous_threat_check rt cfg m now prov tr =
     check_all_stocks rt cfg m now prov tr False True"

section \<open>The manual trigger\<close>

datatype response =
  NotFound
| ServerError error
| NoRecipients
| AlertSent nat

fun send_to_all ::
  "SenderConfig \<Rightarrow> transport \<Rightarrow> nat \<Rightarrow> string \<Rightarrow> block list \<Rightarrow> RecipientConfig list \<Rightarrow>
   error + send_call list" where
  "send_to_all config tr k subject content [] = Inr []"
| "send_to_all config tr k subject content (recipient # rest) =
     (case send_alert config tr k recipient subject content of
        Inl e \<Rightarrow> Inl e
      | Inr call \<Rightarrow>
          (case send_to_all config tr (Suc k) subject content rest of
             Inl e \<Rightarrow> Inl e
           | Inr calls \<Rightarrow> Inr (call # calls)))"

text \<open>
  \<^verbatim>\<open>trigger_manual_alert\<close>, the handler of \<^verbatim>\<open>POST /alert/{symbol}\<close>: the HTTP
  answer, the \<^verbatim>\<open>send_alert\<close> calls made and the monitor's new state. An exception
  in the \<^verbatim>\<open>try\<close> block becomes the answer 500; the sends made before it stay made,
  which the model does not record.
\<close>

definition trigger_manual_alert ::
  "runtime \<Rightarrow> app_config \<Rightarrow> monitor \<Rightarrow> string \<Rightarrow> provider \<Rightarrow> transport \<Rightarrow> string \<Rightarrow>
   response \<times> send_call list \<times> monitor" where
  "trigger_manual_alert rt cfg m now prov tr symbol_str =
     (let upper_symbol = upper_op rt symbol_str
      in case find (\<lambda>s. upper_op rt (symbol s) = upper_symbol) (stocks cfg) of
           None \<Rightarrow> (NotFound, [], m)
         | Some stock_config_obj \<Rightarrow>
             (case get_stock_data rt m stock_config_obj now (prov 0 (symbol stock_config_obj)) of
                (Inl e, m1) \<Rightarrow> (ServerError e, [], m1)
              | (Inr data, m1) \<Rightarrow>
                  let recipients_to_notify =
                        filter (\<lambda>r. upper_symbol \<in> set (subscribed_symbols r)
                                    \<and> pref_get (alert_preferences r) ''manual_alerts'')
                               (recipients cfg)
                  in if recipients_to_notify = [] then (NoRecipients, [], m1)
                     else
                       let is_cover_breached =
                             num_lt (dict_get (d_security_cover data) (Num PyInt (Fin 999)))
                                    (security_cover_threshold stock_config_obj);
                           subject = (if is_cover_breached
                                      then ''BOT ALERT!'' else ''Manual Stock Update'');
                           final_subject = subject @ '': '' @ symbol stock_config_obj;
                           content = format_grouped_alert [data] [stock_config_obj]
                                       (currency_symbol cfg)
                       in (case send_to_all (email_sender cfg) tr 0 final_subject content
                                  recipients_to_notify of
                             Inl e \<Rightarrow> (ServerError e, [], m1)
                           | Inr calls \<Rightarrow> (AlertSent (length recipients_to_notify), calls, m1))))"

section \<open>Notions used in the statements\<close>

text \<open>
  The breach predicate: the snapshot's cover ratio, read as 999 when the snapshot has
  none, is strictly below the instrument's threshold.
\<close>

definition is_cover_breached :: "stock_data \<Rightarrow> StockConfig \<Rightarrow> bool" where
  "is_cover_breached data stock_config =
     num_lt (dict_get (d_security_cover data) (Num PyInt (Fin 999)))
            (security_cover_threshold stock_config)"

text \<open>
  Whether the \<open>j\<close>-th call of a batch whose calls are numbered from \<open>i\<close> yields a
  fresh snapshot, and what a single fetch yields on monitor state \<open>m\<close>: the fresh
  snapshot, or else whatever the cache holds for the symbol.
\<close>

definition fresh_ok ::
  "runtime \<Rightarrow> string \<Rightarrow> provider \<Rightarrow> StockConfig list \<Rightarrow> nat \<Rightarrow> nat \<Rightarrow> bool" where
  "fresh_ok rt now prov scs i j =
     (case try_body rt (scs ! j) now (prov (i + j) (symbol (scs ! j))) of
        Inl e \<Rightarrow> False | Inr d \<Rightarrow> True)"

definition fetched_value ::
  "runtime \<Rightarrow> monitor \<Rightarrow> string \<Rightarrow> provider_result \<Rightarrow> StockConfig \<Rightarrow> stock_data option" where
  "fetched_value rt m now resp sc =
     (case try_body rt sc now resp of Inr d \<Rightarrow> Some d | Inl e \<Rightarrow> cache m (symbol sc))"

text \<open>
  A dispatch attempt without its outcome, and the attempts a run plans: one for each
  recipient for whom the loop body decides to send, in order.
\<close>

definition call_key :: "send_call \<Rightarrow> RecipientConfig \<times> string \<times> block list" where
  "call_key c = (call_recipient c, call_subject c, call_content c)"

fun planned_sends ::
  "(string \<rightharpoonup> stock_data) \<Rightarrow> StockConfig list \<Rightarrow> string \<Rightarrow> bool \<Rightarrow> bool \<Rightarrow>
   RecipientConfig list \<Rightarrow> (RecipientConfig \<times> string \<times> block list) list" where
  "planned_sends fetched all_stocks_config cur is_scheduled threat_only [] = []"
| "planned_sends fetched all_stocks_config cur is_scheduled threat_only (r # rs) =
     (case recipient_decision fetched all_stocks_config cur is_scheduled threat_only r of
        None \<Rightarrow> planned_sends fetched all_stocks_config cur is_scheduled threat_only rs
      | Some (subj, content) \<Rightarrow>
          (r, subj, content)
            # planned_sends fetched all_stocks_config cur is_scheduled threat_only rs)"

text \<open>
  The snapshots of a list that have an instrument, each with its instrument: what the
  renderer makes blocks of.
\<close>

fun with_config :: "StockConfig list \<Rightarrow> stock_data list \<Rightarrow> (stock_data \<times> StockConfig) list" where
  "with_config configs [] = []"
| "with_config configs (data # rest) =
     (case config_for configs data of
        None \<Rightarrow> with_config configs rest
      | Some stock_config \<Rightarrow> (data, stock_config) # with_config configs rest)"

section \<open>An ideal runtime and example inputs\<close>

text \<open>
  A runtime for the examples: arithmetic is exact on finite values and gives NaN
  otherwise, the result is a numpy float when an operand is one and else a Python float
  when an operand is one or the operation is a division, \<^verbatim>\<open>round\<close> goes to the nearest
  hundredth with ties to the even neighbour, and \<^verbatim>\<open>upper\<close> changes the letters a to z.
  It agrees with IEEE double arithmetic where every operand and exact result is a double,
  as in the examples below, whose inputs are finite binary fractions and plain ASCII; a
  rounded figure such as 1.38 stands for the double nearest to it.
\<close>

definition kind_join :: "kind \<Rightarrow> kind \<Rightarrow> kind" where
  "kind_join k1 k2 =
     (if k1 = NpFloat \<or> k2 = NpFloat then NpFloat
      else if k1 = PyFloat \<or> k2 = PyFloat then PyFloat else PyInt)"

fun exact_arith :: "(real \<Rightarrow> real \<Rightarrow> real) \<Rightarrow> num \<Rightarrow> num \<Rightarrow> error + num" where
  "exact_arith f (Num k1 (Fin a)) (Num k2 (Fin b)) = Inr (Num (kind_join k1 k2) (Fin (f a b)))"
| "exact_arith f (Num k1 a) (Num k2 b) = Inr (Num (kind_join k1 k2) NaN)"

fun exact_div :: "num \<Rightarrow> num \<Rightarrow> error + num" where
  "exact_div (Num k1 (Fin a)) (Num k2 (Fin b)) =
     (if b = 0 then Inl ZeroDivisionError
      else Inr (Num (kind_join PyFloat (kind_join k1 k2)) (Fin (a / b))))"
| "exact_div (Num k1 a) (Num k2 b) = Inr (Num (kind_join PyFloat (kind_join k1 k2)) NaN)"

definition round_half_even :: "real \<Rightarrow> nat \<Rightarrow> real" where
  "round_half_even x ndigits =
     (let y = x * 10 ^ ndigits;
          f = \<lfloor>y\<rfloor>;
          d = y - of_int f
      in of_int (if d < 1 / 2 then f
                 else if 1 / 2 < d then f + 1
                 else if even f then f else f + 1) / 10 ^ ndigits)"

fun exact_round :: "num \<Rightarrow> error + num" where
  "exact_round (Num k (Fin a)) = Inr (Num k (Fin (round_half_even a 2)))"
| "exact_round (Num k a) = Inr (Num k a)"

definition upper_char :: "char \<Rightarrow> char" where
  "upper_char c =
     (if (97::nat) \<le> of_char c \<and> of_char c \<le> (122::nat)
      then char_of (of_char c - (32::nat)) else c)"

definition ascii_upper :: "string \<Rightarrow> string" where
  "ascii_upper s = map upper_char s"

definition ideal_runtime :: runtime where
  "ideal_runtime =
     \<lparr> sub_op = exact_arith (\<lambda>a b. a - b), mul_op = exact_arith (\<lambda>a b. a * b),
       div_op = exact_div, round_op = exact_round, upper_op = ascii_upper \<rparr>"

text \<open>
  The instrument of the specification's worked example (a million units against a loan
  of four million, required cover 1.5), the same instrument with no loan outstanding,
  and a provider answer with three daily bars, the second-to-last closing at 5.126953125,
  and a last minute bar at 5.50; then the same answer without the daily bars.
\<close>

definition ex_stock :: StockConfig where
  "ex_stock = \<lparr> symbol = ''X'', company_name = ''X Ltd'',
                quantity_factor = Num PyInt (Fin 1000000),
                loan_outstanding = Num PyInt (Fin 4000000),
                security_cover_threshold = Num PyFloat (Fin (3 / 2)) \<rparr>"

definition ex_stock_no_loan :: StockConfig where
  "ex_stock_no_loan = ex_stock\<lparr> loan_outstanding := Num PyInt (Fin 0) \<rparr>"

definition ex_quote :: provider_data where
  "ex_quote = \<lparr> info = [''previousClose'' \<mapsto> PNum (Num PyFloat (Fin 4))],
                hist_5d = [Num NpFloat (Fin 4), Num NpFloat (Fin (2625 / 512)),
                           Num NpFloat (Fin 4)],
                hist_1d = [(Num NpFloat (Fin (11 / 2)), Num NpFloat (Fin 1000))] \<rparr>"

definition ex_quote_no_bars :: provider_data where
  "ex_quote_no_bars = ex_quote\<lparr> hist_5d := [] \<rparr>"

definition ex_no_data :: provider_data where
  "ex_no_data = \<lparr> info = Map.empty, hist_5d = [], hist_1d = [] \<rparr>"

definition ex_snapshot :: stock_data where
  "ex_snapshot =
     \<lparr> d_symbol = Some ''X'', d_current_price = Some (Num NpFloat (Fin (11 / 2))),
       d_previous_close = Some (Num NpFloat (Fin 4)),
       d_yesterday_close = Some (Num NpFloat (Fin (513 / 100))),
       d_change = Some (Num NpFloat (Fin (3 / 2))),
       d_change_percent = Some (Num NpFloat (Fin (75 / 2))),
       d_yesterday_change = Some (Num NpFloat (Fin (113 / 100))),
       d_yesterday_change_percent = Some (Num NpFloat (Fin (2817 / 100))),
       d_volume = PNum (Num PyInt (Fin 1000)), d_timestamp = ''t'',
       d_market_cap = PNone, d_pe_ratio = PNone, d_52_week_high = PNone,
       d_52_week_low = PNone, d_security_cover = Some (Num NpFloat (Fin (69 / 50))) \<rparr>"

definition ex_snapshot_no_bars :: stock_data where
  "ex_snapshot_no_bars =
     ex_snapshot\<lparr> d_previous_close := Some (Num PyFloat (Fin 4)),
                  d_yesterday_close := Some (Num PyFloat (Fin 4)),
                  d_yesterday_change := Some (Num PyFloat (Fin 0)),
                  d_yesterday_change_percent := Some (Num PyFloat (Fin 0)) \<rparr>"

definition ex_snapshot_no_loan :: stock_data where
  "ex_snapshot_no_loan = ex_snapshot\<lparr> d_security_cover := Some (Num PyFloat (Fin 0)) \<rparr>"

definition ex_monitor :: monitor where
  "ex_monitor = \<lparr> cache = Map.empty, last_update = Map.empty \<rparr>"

definition ex_monitor_cached :: monitor where
  "ex_monitor_cached = \<lparr> cache = [''X'' \<mapsto> ex_snapshot], last_update = [''X'' \<mapsto> ''t''] \<rparr>"

text \<open>
  A batch of three instruments: \<open>X\<close> is fetched, the provider raises for \<open>Y\<close>, which
  is cached, and has no data for \<open>Z\<close>, which is not.
\<close>

definition ex_stock_y :: StockConfig where
  "ex_stock_y = \<lparr> symbol = ''Y'', company_name = ''Y Ltd'', quantity_factor = Num PyInt (Fin 10),
                  loan_outstanding = Num PyInt (Fin 20),
                  security_cover_threshold = Num PyInt (Fin 2) \<rparr>"

definition ex_stock_z :: StockConfig where
  "ex_stock_z = \<lparr> symbol = ''Z'', company_name = ''Z Ltd'', quantity_factor = Num PyInt (Fin 10),
                  loan_outstanding = Num PyInt (Fin 20),
                  security_cover_threshold = Num PyInt (Fin 2) \<rparr>"

definition ex_snapshot_y :: stock_data where
  "ex_snapshot_y =
     ex_snapshot\<lparr> d_symbol := Some ''Y'', d_security_cover := Some (Num NpFloat (Fin 3)) \<rparr>"

definition ex_monitor_y :: monitor where
  "ex_monitor_y = \<lparr> cache = [''Y'' \<mapsto> ex_snapshot_y], last_update = [''Y'' \<mapsto> ''s''] \<rparr>"

definition ex_provider :: provider where
  "ex_provider i s = (if s = ''X'' then Inr ex_quote
                      else if s = ''Y'' then Inl ProviderError else Inr ex_no_data)"

definition ex_batch :: "StockConfig list" where
  "ex_batch = [ex_stock, ex_stock_y, ex_stock_z]"

text \<open>
  The worked example's recovery: the last minute bar at 7.00, cover 1.75.
\<close>

definition ex_quote_recovered :: provider_data where
  "ex_quote_recovered =
     ex_quote\<lparr> hist_1d := [(Num NpFloat (Fin 7), Num NpFloat (Fin 1000))] \<rparr>"

definition ex_snapshot_recovered :: stock_data where
  "ex_snapshot_recovered =
     ex_snapshot\<lparr> d_current_price := Some (Num NpFloat (Fin 7)),
                  d_change := Some (Num NpFloat (Fin 3)),
                  d_change_percent := Some (Num NpFloat (Fin 75)),
                  d_security_cover := Some (Num NpFloat (Fin (7 / 4))) \<rparr>"

definition ex_provider_recovered :: provider where
  "ex_provider_recovered i s = Inr ex_quote_recovered"

text \<open>
  Two recipients subscribed to \<open>X\<close>, one with the default preferences and one whose
  preference dictionary is empty, a sender with a password, a transport that always
  raises and one that never does.
\<close>

definition ex_alice :: RecipientConfig where
  "ex_alice = post_init ''alice@example.com'' [''X''] ''Alice'' None None None"

definition ex_bob :: RecipientConfig where
  "ex_bob = post_init ''bob@example.com'' [''X''] ''Bob'' None None (Some Map.empty)"

definition ex_sender :: SenderConfig where
  "ex_sender = \<lparr> from_email = ''noreply@example.com'', from_name = ''Stock Watchdog'',
                 smtp_host = ''smtp.example.com'', smtp_port = 587,
                 smtp_username = ''noreply@example.com'', smtp_password = ''secret'',
                 use_tls = True \<rparr>"

definition ex_cfg :: app_config where
  "ex_cfg = \<lparr> stocks = [ex_stock], recipients = [ex_alice, ex_bob],
              currency_symbol = ''Rs'', email_sender = ex_sender \<rparr>"


definition ex_transport_up :: transport where
  "ex_transport_up k config msg rcpts = None"

text \<open>
  A snapshot without the \<^verbatim>\<open>security_cover\<close> key, a monitor that has it cached, a
  provider that raises, and instruments requiring a cover of 1000: one named \<open>X\<close> and
  one named \<open>Y\<close>.
\<close>

definition ex_snapshot_bare :: stock_data where
  "ex_snapshot_bare = ex_snapshot\<lparr> d_security_cover := None \<rparr>"

definition ex_monitor_bare :: monitor where
  "ex_monitor_bare = \<lparr> cache = [''X'' \<mapsto> ex_snapshot_bare], last_update = [''X'' \<mapsto> ''t''] \<rparr>"

definition ex_provider_down :: provider where
  "ex_provider_down i s = Inl ProviderError"

definition ex_stock_strict :: StockConfig where
  "ex_stock_strict = ex_stock\<lparr> security_cover_threshold := Num PyInt (Fin 1000) \<rparr>"

definition ex_stock_y_strict :: StockConfig where
  "ex_stock_y_strict = ex_stock_y\<lparr> security_cover_threshold := Num PyInt (Fin 1000) \<rparr>"

definition ex_snapshot_y_bare :: stock_data where
  "ex_snapshot_y_bare = ex_snapshot_y\<lparr> d_security_cover := None \<rparr>"

definition ex_cfg_strict :: app_config where
  "ex_cfg_strict = ex_cfg\<lparr> stocks := [ex_stock_strict] \<rparr>"






section \<open>Properties of the snapshot fetch\<close>

lemma bind_err_Inr_iff: "bind_err m f = Inr y \<longleftrightarrow> (\<exists>x. m = Inr x \<and> f x = Inr y)"
  by (cases m) (simp_all add: bind_err_def)

lemma bind_err_Inr [simp]: "bind_err (Inr x) f = f x"
  by (simp add: bind_err_def)

lemma bind_err_Inl [simp]: "bind_err (Inl e) f = Inl e"
  by (simp add: bind_err_def)

lemma round_py_zero: "fv x = Fin 0 \<Longrightarrow> round_py rt x = Inr x"
  by (simp add: round_py_def)

lemma build_snapshot_Inr:
  assumes "build_snapshot rt sc now p price vol yc pc = Inr d"
  shows "\<exists>chg chgp ychg ychgp cov.
           sub_op rt price pc = Inr chg
         \<and> change_percent rt chg pc = Inr chgp
         \<and> prior_day_change rt (hist_5d p) yc = Inr (ychg, ychgp)
         \<and> cover_ratio rt sc price = Inr cov
         \<and> Some (round_py rt price) = map_option Inr (d_current_price d)
         \<and> Some (round_py rt pc) = map_option Inr (d_previous_close d)
         \<and> Some (round_py rt yc) = map_option Inr (d_yesterday_close d)
         \<and> Some (round_py rt chg) = map_option Inr (d_change d)
         \<and> Some (round_py rt chgp) = map_option Inr (d_change_percent d)
         \<and> Some (round_py rt ychg) = map_option Inr (d_yesterday_change d)
         \<and> Some (round_py rt ychgp) = map_option Inr (d_yesterday_change_percent d)
         \<and> Some (round_py rt cov) = map_option Inr (d_security_cover d)"
  using assms unfolding build_snapshot_def
  by (auto simp: bind_err_Inr_iff split: prod.splits)

text \<open>What a computed snapshot says of the steps that produced it.\<close>

lemma compute_stock_data_Inr:
  assumes "compute_stock_data rt sc now p = Inr d"
  shows "\<exists>price vol yc pc.
           current_price_logic p = Inr (price, vol)
         \<and> (if hist_5d p \<noteq> [] \<and> 2 \<le> length (hist_5d p)
            then yc = hist_5d p ! (length (hist_5d p) - 2)
                 \<and> pc = hist_5d p ! (length (hist_5d p) - 1)
            else (case info p ''previousClose'' of None \<Rightarrow> PNum price | Some v \<Rightarrow> v) = PNum pc
                 \<and> yc = pc)
         \<and> build_snapshot rt sc now p price vol yc pc = Inr d"
proof -
  let ?n = "length (hist_5d p)"
  from assms obtain price vol where cpl: "current_price_logic p = Inr (price, vol)"
    by (cases "current_price_logic p") (auto simp: compute_stock_data_def)
  let ?pc0 = "case info p ''previousClose'' of None \<Rightarrow> PNum price | Some v \<Rightarrow> v"
  show ?thesis
  proof (cases "hist_5d p \<noteq> [] \<and> 2 \<le> ?n")
    case True
    with assms cpl
    have "build_snapshot rt sc now p price vol (hist_5d p ! (?n - 2)) (hist_5d p ! (?n - 1))
            = Inr d"
      by (simp add: compute_stock_data_def Let_def)
    with cpl True show ?thesis by auto
  next
    case False
    with assms cpl
    have c: "(case (?pc0, ?pc0) of
                (PNum yesterday_close, PNum prev_close) \<Rightarrow>
                  build_snapshot rt sc now p price vol yesterday_close prev_close
              | _ \<Rightarrow> Inl TypeError) = Inr d"
      by (simp add: compute_stock_data_def Let_def)
    then obtain pc where pc: "?pc0 = PNum pc"
      by (cases ?pc0) auto
    with c have "build_snapshot rt sc now p price vol pc pc = Inr d" by simp
    with cpl False pc show ?thesis by auto
  qed
qed

lemma ex_price:
  "current_price_logic ex_quote = Inr (Num NpFloat (Fin (11 / 2)), PNum (Num PyInt (Fin 1000)))"
  by (simp add: current_price_logic_def ex_quote_def)

lemma ex_price_no_bars:
  "current_price_logic ex_quote_no_bars
     = Inr (Num NpFloat (Fin (11 / 2)), PNum (Num PyInt (Fin 1000)))"
  by (simp add: current_price_logic_def ex_quote_no_bars_def ex_quote_def)

lemma ideal_ops:
  "sub_op ideal_runtime = exact_arith (\<lambda>a b. a - b)"
  "mul_op ideal_runtime = exact_arith (\<lambda>a b. a * b)"
  "div_op ideal_runtime = exact_div"
  "round_op ideal_runtime = exact_round"
  "upper_op ideal_runtime = ascii_upper"
  by (simp_all add: ideal_runtime_def)

lemmas ideal_eval =
  ideal_ops round_py_def round_half_even_def change_percent_def cover_ratio_def
  prior_day_change_def num_lt_def kind_join_def Let_def

lemma ex_build:
  "build_snapshot ideal_runtime ex_stock ''t'' ex_quote (Num NpFloat (Fin (11 / 2)))
     (PNum (Num PyInt (Fin 1000))) (Num NpFloat (Fin (2625 / 512))) (Num NpFloat (Fin 4))
     = Inr ex_snapshot"
  by (simp add: build_snapshot_def ideal_eval ex_stock_def ex_quote_def ex_snapshot_def
        info_get_def)

lemma ex_compute: "compute_stock_data ideal_runtime ex_stock ''t'' ex_quote = Inr ex_snapshot"
  by (simp add: compute_stock_data_def ex_price Let_def)
     (simp add: ex_quote_def ex_build [unfolded ex_quote_def])

lemma ex_compute_no_loan:
  "compute_stock_data ideal_runtime ex_stock_no_loan ''t'' ex_quote = Inr ex_snapshot_no_loan"
  by (simp add: compute_stock_data_def ex_price Let_def)
     (simp add: ex_quote_def build_snapshot_def ideal_eval ex_stock_no_loan_def ex_stock_def
        ex_snapshot_no_loan_def ex_snapshot_def info_get_def)

lemma ex_compute_no_bars:
  "compute_stock_data ideal_runtime ex_stock ''t'' ex_quote_no_bars = Inr ex_snapshot_no_bars"
  by (simp add: compute_stock_data_def ex_price_no_bars Let_def)
     (simp add: ex_quote_no_bars_def ex_quote_def build_snapshot_def ideal_eval ex_stock_def
        ex_snapshot_no_bars_def ex_snapshot_def info_get_def)

lemma ex_compute_no_data: "compute_stock_data rt sc now ex_no_data = Inl ValueError"
  by (simp add: compute_stock_data_def current_price_logic_def ex_no_data_def py_or_def
        info_get_def)

lemma get_stock_data_fresh:
  "try_body rt sc now resp = Inr d \<Longrightarrow> fst (get_stock_data rt m sc now resp) = Inr d"
  by (simp add: get_stock_data_def)

lemma cover_ratio_no_loan:
  "\<not> num_lt (Num PyInt (Fin 0)) (loan_outstanding sc)
   \<Longrightarrow> cover_ratio rt sc price = Inr (Num PyFloat (Fin 0))"
  by (simp add: cover_ratio_def)

lemma stored_rounded:
  "Some (round_py rt x) = map_option Inr field \<longleftrightarrow> (\<exists>c. round_py rt x = Inr c \<and> field = Some c)"
  by (cases field) auto

lemma prior_day_change_few:
  "length hist < 3 \<Longrightarrow>
   prior_day_change rt hist yc = Inr (Num PyFloat (Fin 0), Num PyFloat (Fin 0))"
  by (simp add: prior_day_change_def)

lemma prior_day_change_bars:
  assumes "3 \<le> length hist" and "prior_day_change rt hist yc = Inr (ychg, ychgp)"
  shows "sub_op rt yc (hist ! (length hist - 3)) = Inr ychg
         \<and> change_percent rt ychg (hist ! (length hist - 3)) = Inr ychgp"
proof -
  from assms(1) have "hist \<noteq> []" by auto
  with assms show ?thesis
    by (auto simp: prior_day_change_def Let_def bind_err_Inr_iff)
qed

subsection \<open>Cover ratio and breach without a loan\<close>

text \<open>
  Claim C3, as the code has it. For an instrument with \<^verbatim>\<open>loan_outstanding == 0\<close> and any
  provider answer from which a snapshot is computed, the snapshot's cover ratio is 0. The
  breach test on that snapshot compares 0 with the threshold: it is true exactly when the
  threshold is positive, and false only for a threshold that is zero, negative or NaN.
\<close>

theorem zero_loan_cover_and_breach:
  assumes "fv (loan_outstanding sc) = Fin 0"
    and "try_body rt sc now resp = Inr d"
  shows "fst (get_stock_data rt m sc now resp) = Inr d
         \<and> d_security_cover d = Some (Num PyFloat (Fin 0))
         \<and> (is_cover_breached d sc \<longleftrightarrow> fval_lt (Fin 0) (fv (security_cover_threshold sc)))"
proof -
  from assms(2) obtain p where p: "resp = Inr p" "compute_stock_data rt sc now p = Inr d"
    by (auto simp: try_body_def split: sum.splits)
  from assms(1) have nl: "\<not> num_lt (Num PyInt (Fin 0)) (loan_outstanding sc)"
    by (simp add: num_lt_def)
  from compute_stock_data_Inr [OF p(2)] obtain price vol yc pc
    where "build_snapshot rt sc now p price vol yc pc = Inr d" by blast
  from build_snapshot_Inr [OF this] obtain cov
    where cr: "cover_ratio rt sc price = Inr cov"
      and st: "Some (round_py rt cov) = map_option Inr (d_security_cover d)" by blast
  from st obtain c0 where c0: "round_py rt cov = Inr c0" "d_security_cover d = Some c0"
    unfolding stored_rounded by blast
  from cr cover_ratio_no_loan [OF nl, of rt price] have "cov = Num PyFloat (Fin 0)" by simp
  with c0 have c: "d_security_cover d = Some (Num PyFloat (Fin 0))"
    by (simp add: round_py_zero)
  then have "is_cover_breached d sc \<longleftrightarrow> fval_lt (Fin 0) (fv (security_cover_threshold sc))"
    by (simp add: is_cover_breached_def dict_get_def num_lt_def)
  with c get_stock_data_fresh [OF assms(2)] show ?thesis by simp
qed

theorem zero_loan_cover_and_breach_witness:
  "fv (loan_outstanding ex_stock_no_loan) = Fin 0
   \<and> fst (get_stock_data ideal_runtime ex_monitor ex_stock_no_loan ''t'' (Inr ex_quote))
       = Inr ex_snapshot_no_loan
   \<and> d_security_cover ex_snapshot_no_loan = Some (Num PyFloat (Fin 0))
   \<and> is_cover_breached ex_snapshot_no_loan ex_stock_no_loan"
proof -
  have h1: "fv (loan_outstanding ex_stock_no_loan) = Fin 0"
    by (simp add: ex_stock_no_loan_def)
  have h2: "try_body ideal_runtime ex_stock_no_loan ''t'' (Inr ex_quote) = Inr ex_snapshot_no_loan"
    by (simp add: try_body_def ex_compute_no_loan)
  have h3: "fval_lt (Fin 0) (fv (security_cover_threshold ex_stock_no_loan))"
    by (simp add: ex_stock_no_loan_def ex_stock_def)
  show ?thesis
    using zero_loan_cover_and_breach [OF h1 h2, of ex_monitor] h1 h3 by simp
qed

text \<open>The worked example without a loan: the cover is 0 and the instrument counts as breached.\<close>

theorem zero_loan_breach_counterexample:
  "fv (loan_outstanding ex_stock_no_loan) = Fin 0
   \<and> fst (get_stock_data ideal_runtime ex_monitor ex_stock_no_loan ''t'' (Inr ex_quote))
       = Inr ex_snapshot_no_loan
   \<and> is_cover_breached ex_snapshot_no_loan ex_stock_no_loan"
  by (simp add: get_stock_data_def try_body_def ex_compute_no_loan)
     (simp add: ex_stock_no_loan_def ex_stock_def ex_snapshot_no_loan_def ex_snapshot_def
        is_cover_breached_def dict_get_def num_lt_def)

subsection \<open>The stored cover ratio\<close>

text \<open>
  Claim C4, as the code has it. For a fresh snapshot computed at current price \<open>price\<close>,
  the stored cover ratio is \<^verbatim>\<open>round((quantity_factor * price) / loan_outstanding, 2)\<close>
  when \<open>loan_outstanding\<close> is positive: the product and the quotient as the runtime's
  arithmetic gives them, then rounded to two places by the runtime's \<^verbatim>\<open>round\<close>. The
  price in the formula is the unrounded one. When \<open>loan_outstanding\<close> is not positive
  the stored ratio is 0.
\<close>

theorem cover_ratio_rounded:
  assumes "current_price_logic p = Inr (price, vol)"
    and "compute_stock_data rt sc now p = Inr d"
  shows "fst (get_stock_data rt m sc now (Inr p)) = Inr d
         \<and> (if num_lt (Num PyInt (Fin 0)) (loan_outstanding sc)
            then \<exists>x y c. mul_op rt (quantity_factor sc) price = Inr x
                        \<and> div_op rt x (loan_outstanding sc) = Inr y
                        \<and> round_py rt y = Inr c
                        \<and> d_security_cover d = Some c
            else d_security_cover d = Some (Num PyFloat (Fin 0)))"
proof -
  have "try_body rt sc now (Inr p) = Inr d"
    using assms(2) by (simp add: try_body_def)
  then have fresh: "fst (get_stock_data rt m sc now (Inr p)) = Inr d"
    by (rule get_stock_data_fresh)
  from compute_stock_data_Inr [OF assms(2)] assms(1) obtain yc pc
    where "build_snapshot rt sc now p price vol yc pc = Inr d" by auto
  from build_snapshot_Inr [OF this] obtain cov
    where cr: "cover_ratio rt sc price = Inr cov"
      and st: "Some (round_py rt cov) = map_option Inr (d_security_cover d)" by blast
  from st obtain c where c: "round_py rt cov = Inr c" "d_security_cover d = Some c"
    unfolding stored_rounded by blast
  show ?thesis
  proof (cases "num_lt (Num PyInt (Fin 0)) (loan_outstanding sc)")
    case True
    with cr obtain x where "mul_op rt (quantity_factor sc) price = Inr x"
      "div_op rt x (loan_outstanding sc) = Inr cov"
      by (auto simp: cover_ratio_def bind_err_Inr_iff)
    with c True fresh show ?thesis by auto
  next
    case False
    with cr have "cov = Num PyFloat (Fin 0)" by (simp add: cover_ratio_def)
    with c False fresh show ?thesis by (simp add: round_py_zero)
  qed
qed

theorem cover_ratio_rounded_witness:
  "current_price_logic ex_quote = Inr (Num NpFloat (Fin (11 / 2)), PNum (Num PyInt (Fin 1000)))
   \<and> compute_stock_data ideal_runtime ex_stock ''t'' ex_quote = Inr ex_snapshot
   \<and> num_lt (Num PyInt (Fin 0)) (loan_outstanding ex_stock)
   \<and> fst (get_stock_data ideal_runtime ex_monitor ex_stock ''t'' (Inr ex_quote)) = Inr ex_snapshot
   \<and> d_security_cover ex_snapshot = Some (Num NpFloat (Fin (69 / 50)))
   \<and> compute_stock_data ideal_runtime ex_stock_no_loan ''t'' ex_quote = Inr ex_snapshot_no_loan
   \<and> d_security_cover ex_snapshot_no_loan = Some (Num PyFloat (Fin 0))"
  using cover_ratio_rounded [OF ex_price ex_compute, of ex_monitor]
    cover_ratio_rounded [OF ex_price ex_compute_no_loan, of ex_monitor]
    ex_price ex_compute ex_compute_no_loan
  by (simp add: ex_stock_def ex_stock_no_loan_def ex_snapshot_def ex_snapshot_no_loan_def
        num_lt_def)

text \<open>
  The worked example at 5.50. The quantity, the price, the loan, their product and the
  quotient 1.375 are all doubles, so no arithmetic rounds them; \<^verbatim>\<open>round\<close> takes 1.375
  to 1.38, and the snapshot does not store the ratio itself.
\<close>

theorem cover_ratio_exact_counterexample:
  "num_lt (Num PyInt (Fin 0)) (loan_outstanding ex_stock)
   \<and> current_price_logic ex_quote
       = Inr (Num NpFloat (Fin (11 / 2)), PNum (Num PyInt (Fin 1000)))
   \<and> fst (get_stock_data ideal_runtime ex_monitor ex_stock ''t'' (Inr ex_quote)) = Inr ex_snapshot
   \<and> mul_op ideal_runtime (quantity_factor ex_stock) (Num NpFloat (Fin (11 / 2)))
       = Inr (Num NpFloat (Fin 5500000))
   \<and> div_op ideal_runtime (Num NpFloat (Fin 5500000)) (loan_outstanding ex_stock)
       = Inr (Num NpFloat (Fin (11 / 8)))
   \<and> d_security_cover ex_snapshot \<noteq> Some (Num NpFloat (Fin (11 / 8)))"
  by (simp add: ex_price get_stock_data_def try_body_def ex_compute)
     (simp add: ex_stock_def ex_snapshot_def ideal_ops kind_join_def num_lt_def)

subsection \<open>Stale fallback\<close>

text \<open>
  Claim C5. When the \<^verbatim>\<open>try\<close> block of \<^verbatim>\<open>get_stock_data\<close> fails, whether the provider
  raised or the answer could not be used, the call returns the cached snapshot of the symbol
  if there is one, without an error, and otherwise fails with the error; the monitor's
  state is left as it was.
\<close>

theorem fetch_failure_falls_back_to_cache:
  assumes "try_body rt sc now resp = Inl e"
  shows "(cache m (symbol sc) = Some cached \<longrightarrow>
            get_stock_data rt m sc now resp = (Inr cached, m))
         \<and> (cache m (symbol sc) = None \<longrightarrow> get_stock_data rt m sc now resp = (Inl e, m))"
  using assms by (simp add: get_stock_data_def)

theorem fetch_failure_falls_back_to_cache_witness:
  "try_body ideal_runtime ex_stock ''u'' (Inr ex_no_data) = Inl ValueError
   \<and> try_body ideal_runtime ex_stock ''u'' (Inl ProviderError) = Inl ProviderError
   \<and> get_stock_data ideal_runtime ex_monitor_cached ex_stock ''u'' (Inr ex_no_data)
       = (Inr ex_snapshot, ex_monitor_cached)
   \<and> get_stock_data ideal_runtime ex_monitor_cached ex_stock ''u'' (Inl ProviderError)
       = (Inr ex_snapshot, ex_monitor_cached)
   \<and> get_stock_data ideal_runtime ex_monitor ex_stock ''u'' (Inr ex_no_data)
       = (Inl ValueError, ex_monitor)"
proof -
  have h1: "try_body ideal_runtime ex_stock ''u'' (Inr ex_no_data) = Inl ValueError"
    by (simp add: try_body_def ex_compute_no_data)
  have h2: "try_body ideal_runtime ex_stock ''u'' (Inl ProviderError) = Inl ProviderError"
    by (simp add: try_body_def)
  have c1: "cache ex_monitor_cached (symbol ex_stock) = Some ex_snapshot"
    by (simp add: ex_monitor_cached_def ex_stock_def)
  have c2: "cache ex_monitor (symbol ex_stock) = None"
    by (simp add: ex_monitor_def)
  show ?thesis
    using fetch_failure_falls_back_to_cache [OF h1, of ex_monitor_cached ex_snapshot]
      fetch_failure_falls_back_to_cache [OF h2, of ex_monitor_cached ex_snapshot]
      fetch_failure_falls_back_to_cache [OF h1, of ex_monitor ex_snapshot]
      h1 h2 c1 c2
    by simp
qed

subsection \<open>Closes and changes\<close>

text \<open>
  Claim C9, as the code has it. In a fresh snapshot every figure is stored as the
  runtime's \<^verbatim>\<open>round\<close> to two places returns it, and every difference and quotient is
  the runtime's. With at least two daily bars the prior-session close is the
  second-to-last bar's close and the day change is the current price minus the last bar's
  close; with fewer, both are taken against the provider's \<^verbatim>\<open>previousClose\<close> field, or
  against the current price when the provider gives no such field. With at least three
  daily bars the prior-day change is the second-to-last close minus the third-to-last,
  and its percentage is that change over the third-to-last close times 100 (0 when that
  close is 0); with fewer bars both are 0.
\<close>

theorem closes_and_changes_rounded:
  assumes "current_price_logic p = Inr (price, vol)"
    and "compute_stock_data rt sc now p = Inr d"
  shows "(2 \<le> length (hist_5d p) \<longrightarrow>
            (\<exists>yc x c.
                round_py rt (hist_5d p ! (length (hist_5d p) - 2)) = Inr yc
              \<and> d_yesterday_close d = Some yc
              \<and> sub_op rt price (hist_5d p ! (length (hist_5d p) - 1)) = Inr x
              \<and> round_py rt x = Inr c
              \<and> d_change d = Some c))
       \<and> (length (hist_5d p) < 2 \<longrightarrow>
            (\<exists>v yc x c.
                (case info p ''previousClose'' of None \<Rightarrow> PNum price | Some w \<Rightarrow> w) = PNum v
              \<and> round_py rt v = Inr yc
              \<and> d_yesterday_close d = Some yc
              \<and> sub_op rt price v = Inr x
              \<and> round_py rt x = Inr c
              \<and> d_change d = Some c))
       \<and> (3 \<le> length (hist_5d p) \<longrightarrow>
            (\<exists>x c y c'.
                sub_op rt (hist_5d p ! (length (hist_5d p) - 2))
                          (hist_5d p ! (length (hist_5d p) - 3)) = Inr x
              \<and> round_py rt x = Inr c
              \<and> d_yesterday_change d = Some c
              \<and> change_percent rt x (hist_5d p ! (length (hist_5d p) - 3)) = Inr y
              \<and> round_py rt y = Inr c'
              \<and> d_yesterday_change_percent d = Some c'))
       \<and> (length (hist_5d p) < 3 \<longrightarrow>
            d_yesterday_change d = Some (Num PyFloat (Fin 0))
          \<and> d_yesterday_change_percent d = Some (Num PyFloat (Fin 0)))"
proof -
  let ?h = "hist_5d p"
  let ?n = "length ?h"
  from compute_stock_data_Inr [OF assms(2)] assms(1) obtain yc pc
    where sel: "if ?h \<noteq> [] \<and> 2 \<le> ?n
                then yc = ?h ! (?n - 2) \<and> pc = ?h ! (?n - 1)
                else (case info p ''previousClose'' of None \<Rightarrow> PNum price | Some v \<Rightarrow> v) = PNum pc
                     \<and> yc = pc"
      and bs: "build_snapshot rt sc now p price vol yc pc = Inr d" by auto
  from build_snapshot_Inr [OF bs] obtain chg chgp ychg ychgp
    where chg: "sub_op rt price pc = Inr chg"
      and pd: "prior_day_change rt ?h yc = Inr (ychg, ychgp)"
      and s_yc: "Some (round_py rt yc) = map_option Inr (d_yesterday_close d)"
      and s_chg: "Some (round_py rt chg) = map_option Inr (d_change d)"
      and s_ychg: "Some (round_py rt ychg) = map_option Inr (d_yesterday_change d)"
      and s_ychgp: "Some (round_py rt ychgp) = map_option Inr (d_yesterday_change_percent d)"
    by blast
  from s_yc obtain r_yc where r_yc: "round_py rt yc = Inr r_yc" "d_yesterday_close d = Some r_yc"
    unfolding stored_rounded by blast
  from s_chg obtain r_chg where r_chg: "round_py rt chg = Inr r_chg" "d_change d = Some r_chg"
    unfolding stored_rounded by blast
  from s_ychg obtain r_ychg
    where r_ychg: "round_py rt ychg = Inr r_ychg" "d_yesterday_change d = Some r_ychg"
    unfolding stored_rounded by blast
  from s_ychgp obtain r_ychgp
    where r_ychgp: "round_py rt ychgp = Inr r_ychgp" "d_yesterday_change_percent d = Some r_ychgp"
    unfolding stored_rounded by blast
  have two: "\<exists>yc x c.
                round_py rt (?h ! (?n - 2)) = Inr yc
              \<and> d_yesterday_close d = Some yc
              \<and> sub_op rt price (?h ! (?n - 1)) = Inr x
              \<and> round_py rt x = Inr c
              \<and> d_change d = Some c" if "2 \<le> ?n"
  proof -
    from that have "?h \<noteq> [] \<and> 2 \<le> ?n" by auto
    with sel have "yc = ?h ! (?n - 2)" "pc = ?h ! (?n - 1)" by simp_all
    with r_yc r_chg chg show ?thesis by blast
  qed
  have few: "\<exists>v yc x c.
                (case info p ''previousClose'' of None \<Rightarrow> PNum price | Some w \<Rightarrow> w) = PNum v
              \<and> round_py rt v = Inr yc
              \<and> d_yesterday_close d = Some yc
              \<and> sub_op rt price v = Inr x
              \<and> round_py rt x = Inr c
              \<and> d_change d = Some c" if "?n < 2"
  proof -
    from that have "\<not> (?h \<noteq> [] \<and> 2 \<le> ?n)" by auto
    with sel have "(case info p ''previousClose'' of None \<Rightarrow> PNum price | Some v \<Rightarrow> v) = PNum pc"
      "yc = pc" by simp_all
    with r_yc r_chg chg show ?thesis by blast
  qed
  have three: "\<exists>x c y c'.
                sub_op rt (?h ! (?n - 2)) (?h ! (?n - 3)) = Inr x
              \<and> round_py rt x = Inr c
              \<and> d_yesterday_change d = Some c
              \<and> change_percent rt x (?h ! (?n - 3)) = Inr y
              \<and> round_py rt y = Inr c'
              \<and> d_yesterday_change_percent d = Some c'" if "3 \<le> ?n"
  proof -
    from that have "?h \<noteq> [] \<and> 2 \<le> ?n" by auto
    with sel have yc: "yc = ?h ! (?n - 2)" by simp
    from prior_day_change_bars [OF that pd] yc
    have "sub_op rt (?h ! (?n - 2)) (?h ! (?n - 3)) = Inr ychg"
      "change_percent rt ychg (?h ! (?n - 3)) = Inr ychgp" by simp_all
    with r_ychg r_ychgp show ?thesis by blast
  qed
  have none: "d_yesterday_change d = Some (Num PyFloat (Fin 0))
              \<and> d_yesterday_change_percent d = Some (Num PyFloat (Fin 0))" if "?n < 3"
  proof -
    from prior_day_change_few [OF that, of rt yc] pd
    have z: "ychg = Num PyFloat (Fin 0)" "ychgp = Num PyFloat (Fin 0)" by simp_all
    have "round_py rt (Num PyFloat (Fin 0)) = Inr (Num PyFloat (Fin 0))"
      by (simp add: round_py_zero)
    with r_ychg r_ychgp show ?thesis unfolding z by simp
  qed
  from two few three none show ?thesis by blast
qed

theorem closes_and_changes_rounded_witness:
  "current_price_logic ex_quote = Inr (Num NpFloat (Fin (11 / 2)), PNum (Num PyInt (Fin 1000)))
   \<and> compute_stock_data ideal_runtime ex_stock ''t'' ex_quote = Inr ex_snapshot
   \<and> length (hist_5d ex_quote) = 3
   \<and> d_yesterday_close ex_snapshot = Some (Num NpFloat (Fin (513 / 100)))
   \<and> d_change ex_snapshot = Some (Num NpFloat (Fin (3 / 2)))
   \<and> d_yesterday_change ex_snapshot = Some (Num NpFloat (Fin (113 / 100)))
   \<and> d_yesterday_change_percent ex_snapshot = Some (Num NpFloat (Fin (2817 / 100)))
   \<and> compute_stock_data ideal_runtime ex_stock ''t'' ex_quote_no_bars = Inr ex_snapshot_no_bars
   \<and> length (hist_5d ex_quote_no_bars) = 0
   \<and> d_yesterday_close ex_snapshot_no_bars = Some (Num PyFloat (Fin 4))
   \<and> d_yesterday_change ex_snapshot_no_bars = Some (Num PyFloat (Fin 0))"
  using closes_and_changes_rounded [OF ex_price ex_compute]
    closes_and_changes_rounded [OF ex_price_no_bars ex_compute_no_bars]
    ex_price ex_compute ex_compute_no_bars
  by (simp add: ex_quote_def ex_quote_no_bars_def ex_snapshot_def ex_snapshot_no_bars_def)

text \<open>
  The second-to-last bar closes at 5.126953125, a double, and the snapshot stores 5.13.
\<close>

theorem prior_close_exact_counterexample:
  "2 \<le> length (hist_5d ex_quote)
   \<and> fst (get_stock_data ideal_runtime ex_monitor ex_stock ''t'' (Inr ex_quote)) = Inr ex_snapshot
   \<and> hist_5d ex_quote ! (length (hist_5d ex_quote) - 2) = Num NpFloat (Fin (2625 / 512))
   \<and> d_yesterday_close ex_snapshot = Some (Num NpFloat (Fin (513 / 100)))
   \<and> d_yesterday_close ex_snapshot
       \<noteq> Some (hist_5d ex_quote ! (length (hist_5d ex_quote) - 2))"
  by (simp add: get_stock_data_def try_body_def ex_compute)
     (simp add: ex_quote_def ex_snapshot_def)

section \<open>Properties of the batch fetch\<close>

lemma get_stock_data_result:
  "fst (get_stock_data rt m sc now resp) =
     (case try_body rt sc now resp of
        Inr d \<Rightarrow> Inr d
      | Inl e \<Rightarrow> (case cache m (symbol sc) of Some c \<Rightarrow> Inr c | None \<Rightarrow> Inl e))"
  by (simp add: get_stock_data_def split: sum.splits option.splits)

lemma get_stock_data_cache:
  "cache (snd (get_stock_data rt m sc now resp)) =
     (case try_body rt sc now resp of
        Inr d \<Rightarrow> (cache m)(symbol sc \<mapsto> d)
      | Inl e \<Rightarrow> cache m)"
  by (simp add: get_stock_data_def split: sum.splits option.splits)

lemma gather_Cons_fst:
  "fst (gather rt m now prov i (sc # scs)) =
     fst (get_stock_data rt m sc now (prov i (symbol sc)))
       # fst (gather rt (snd (get_stock_data rt m sc now (prov i (symbol sc)))) now prov (Suc i) scs)"
  by (simp add: case_prod_beta)

lemma gather_Cons_snd:
  "snd (gather rt m now prov i (sc # scs)) =
     snd (gather rt (snd (get_stock_data rt m sc now (prov i (symbol sc)))) now prov (Suc i) scs)"
  by (simp add: case_prod_beta)

lemma gather_length: "length (fst (gather rt m now prov i scs)) = length scs"
  by (induction scs arbitrary: m i) (simp_all add: gather_Cons_fst del: gather.simps(2))

lemma fresh_ok_iff:
  "fresh_ok rt now prov scs i j \<longleftrightarrow>
     (\<exists>d. try_body rt (scs ! j) now (prov (i + j) (symbol (scs ! j))) = Inr d)"
  by (simp add: fresh_ok_def split: sum.splits)

lemma gather_cache_dom:
  "dom (cache (snd (gather rt m now prov i scs))) =
     dom (cache m) \<union> {symbol (scs ! j) | j. j < length scs \<and> fresh_ok rt now prov scs i j}"
proof (induction scs arbitrary: m i)
  case Nil
  then show ?case by simp
next
  case (Cons sc scs)
  let ?m1 = "snd (get_stock_data rt m sc now (prov i (symbol sc)))"
  have split_set:
    "{symbol ((sc # scs) ! j) | j. j < length (sc # scs) \<and> fresh_ok rt now prov (sc # scs) i j}
       = (if fresh_ok rt now prov (sc # scs) i 0 then {symbol sc} else {})
         \<union> {symbol (scs ! j) | j. j < length scs \<and> fresh_ok rt now prov scs (Suc i) j}"
    (is "?L = ?R")
  proof
    show "?L \<subseteq> ?R"
    proof
      fix s assume "s \<in> ?L"
      then obtain j where j: "j < length (sc # scs)" "fresh_ok rt now prov (sc # scs) i j"
        "s = symbol ((sc # scs) ! j)" by blast
      show "s \<in> ?R"
      proof (cases j)
        case 0
        with j show ?thesis by simp
      next
        case (Suc j')
        with j have "j' < length scs" "fresh_ok rt now prov scs (Suc i) j'" "s = symbol (scs ! j')"
          by (simp_all add: fresh_ok_iff)
        then show ?thesis by blast
      qed
    qed
    show "?R \<subseteq> ?L"
    proof
      fix s assume "s \<in> ?R"
      then consider "fresh_ok rt now prov (sc # scs) i 0" "s = symbol sc"
        | j' where "j' < length scs" "fresh_ok rt now prov scs (Suc i) j'" "s = symbol (scs ! j')"
        by (auto split: if_splits)
      then show "s \<in> ?L"
      proof cases
        case 1
        then have "0 < length (sc # scs) \<and> fresh_ok rt now prov (sc # scs) i 0
                   \<and> s = symbol ((sc # scs) ! 0)" by simp
        then show ?thesis by blast
      next
        case 2
        then have "Suc j' < length (sc # scs) \<and> fresh_ok rt now prov (sc # scs) i (Suc j')
                   \<and> s = symbol ((sc # scs) ! Suc j')" by (simp add: fresh_ok_iff)
        then show ?thesis by blast
      qed
    qed
  qed
  have step: "dom (cache ?m1) =
      dom (cache m) \<union> (if fresh_ok rt now prov (sc # scs) i 0 then {symbol sc} else {})"
    by (auto simp: get_stock_data_cache fresh_ok_iff split: sum.splits)
  show ?case
    unfolding gather_Cons_snd Cons.IH split_set step by blast
qed

lemma gather_ok_cached:
  "(sc, Inr d) \<in> set (zip scs (fst (gather rt m now prov i scs)))
   \<Longrightarrow> symbol sc \<in> dom (cache (snd (gather rt m now prov i scs)))"
proof (induction scs arbitrary: m i)
  case Nil
  then show ?case by simp
next
  case (Cons a scs)
  let ?m1 = "snd (get_stock_data rt m a now (prov i (symbol a)))"
  from Cons.prems consider
    "sc = a" "fst (get_stock_data rt m a now (prov i (symbol a))) = Inr d"
    | "(sc, Inr d) \<in> set (zip scs (fst (gather rt ?m1 now prov (Suc i) scs)))"
    by (auto simp: gather_Cons_fst simp del: gather.simps(2))
  then show ?case
  proof cases
    case 1
    then have "symbol sc \<in> dom (cache ?m1)"
      by (auto simp: get_stock_data_result get_stock_data_cache split: sum.splits option.splits)
    then show ?thesis
      unfolding gather_Cons_snd gather_cache_dom [of rt ?m1] by blast
  next
    case 2
    then show ?thesis unfolding gather_Cons_snd by (rule Cons.IH)
  qed
qed

lemma collect_results_dom:
  "s \<in> dom (collect_results c zs acc) \<longleftrightarrow>
     s \<in> dom acc
     \<or> (\<exists>sc r. (sc, r) \<in> set zs \<and> symbol sc = s \<and> ((\<exists>d. r = Inr d) \<or> s \<in> dom c))"
proof (induction c zs acc rule: collect_results.induct)
  case (1 c stock_data_map)
  then show ?case by simp
next
  case (2 c sc e rest stock_data_map)
  let ?acc = "case c (symbol sc) of Some cached \<Rightarrow> stock_data_map(symbol sc \<mapsto> cached)
              | None \<Rightarrow> stock_data_map"
  have A: "s \<in> dom ?acc \<longleftrightarrow> s \<in> dom stock_data_map \<or> (symbol sc = s \<and> s \<in> dom c)"
    by (auto split: option.splits)
  have B: "(\<exists>sc' r. (sc', r) \<in> set ((sc, Inl e) # rest) \<and> symbol sc' = s
                    \<and> ((\<exists>d. r = Inr d) \<or> s \<in> dom c))
           \<longleftrightarrow> (symbol sc = s \<and> s \<in> dom c)
               \<or> (\<exists>sc' r. (sc', r) \<in> set rest \<and> symbol sc' = s \<and> ((\<exists>d. r = Inr d) \<or> s \<in> dom c))"
    by (simp only: set_simps insert_iff prod.inject) blast
  show ?case
    unfolding collect_results.simps "2.IH" A B by blast
next
  case (3 c sc result rest stock_data_map)
  have A: "s \<in> dom (stock_data_map(symbol sc \<mapsto> result))
           \<longleftrightarrow> s \<in> dom stock_data_map \<or> symbol sc = s"
    by auto
  have B: "(\<exists>sc' r. (sc', r) \<in> set ((sc, Inr result) # rest) \<and> symbol sc' = s
                    \<and> ((\<exists>d. r = Inr d) \<or> s \<in> dom c))
           \<longleftrightarrow> symbol sc = s
               \<or> (\<exists>sc' r. (sc', r) \<in> set rest \<and> symbol sc' = s \<and> ((\<exists>d. r = Inr d) \<or> s \<in> dom c))"
    by (simp only: set_simps insert_iff prod.inject) blast
  show ?case
    unfolding collect_results.simps "3.IH" A B by blast
qed

lemma check_multiple_stocks_dom:
  "s \<in> dom (fst (check_multiple_stocks rt m now prov scs)) \<longleftrightarrow>
     s \<in> symbol ` set scs \<and> s \<in> dom (cache (snd (gather rt m now prov 0 scs)))"
proof -
  let ?rs = "fst (gather rt m now prov 0 scs)"
  let ?c = "cache (snd (gather rt m now prov 0 scs))"
  have fm: "fst (check_multiple_stocks rt m now prov scs) = collect_results ?c (zip scs ?rs) Map.empty"
    by (simp add: check_multiple_stocks_def case_prod_beta)
  have len: "length ?rs = length scs" by (rule gather_length)
  have "s \<in> dom (collect_results ?c (zip scs ?rs) Map.empty) \<longleftrightarrow>
        (\<exists>sc r. (sc, r) \<in> set (zip scs ?rs) \<and> symbol sc = s \<and> ((\<exists>d. r = Inr d) \<or> s \<in> dom ?c))"
    by (simp add: collect_results_dom)
  also have "\<dots> \<longleftrightarrow> s \<in> symbol ` set scs \<and> s \<in> dom ?c"
  proof
    assume "\<exists>sc r. (sc, r) \<in> set (zip scs ?rs) \<and> symbol sc = s \<and> ((\<exists>d. r = Inr d) \<or> s \<in> dom ?c)"
    then obtain sc r where z: "(sc, r) \<in> set (zip scs ?rs)" and s: "symbol sc = s"
      and ok: "(\<exists>d. r = Inr d) \<or> s \<in> dom ?c" by blast
    from z have "sc \<in> set scs" by (rule set_zip_leftD)
    moreover have "s \<in> dom ?c"
      using ok z s gather_ok_cached [of sc _ scs rt m now prov 0] by blast
    ultimately show "s \<in> symbol ` set scs \<and> s \<in> dom ?c" using s by blast
  next
    assume a: "s \<in> symbol ` set scs \<and> s \<in> dom ?c"
    then obtain sc where sc: "sc \<in> set scs" "symbol sc = s" by blast
    then obtain j where j: "j < length scs" "scs ! j = sc" by (auto simp: in_set_conv_nth)
    with len have "(sc, ?rs ! j) \<in> set (zip scs ?rs)"
      by (auto simp: set_zip)
    with sc a show "\<exists>sc r. (sc, r) \<in> set (zip scs ?rs) \<and> symbol sc = s
                      \<and> ((\<exists>d. r = Inr d) \<or> s \<in> dom ?c)" by blast
  qed
  finally show ?thesis unfolding fm .
qed

lemma collect_results_other:
  "s \<notin> symbol ` fst ` set zs \<Longrightarrow> collect_results c zs acc s = acc s"
  by (induction c zs acc rule: collect_results.induct) (auto split: option.splits)

lemma collect_results_value:
  "distinct (map (\<lambda>z. symbol (fst z)) zs) \<Longrightarrow> (sc, r) \<in> set zs \<Longrightarrow>
   collect_results c zs acc (symbol sc) =
     (case r of Inr d \<Rightarrow> Some d
      | Inl e \<Rightarrow> (case c (symbol sc) of Some x \<Rightarrow> Some x | None \<Rightarrow> acc (symbol sc)))"
proof (induction c zs acc rule: collect_results.induct)
  case (1 c stock_data_map)
  then show ?case by simp
next
  case (2 c a e rest stock_data_map)
  show ?case
  proof (cases "(sc, r) = (a, Inl e)")
    case True
    with "2.prems" have "symbol sc \<notin> symbol ` fst ` set rest" by auto
    with True show ?thesis
      by (simp add: collect_results_other split: option.splits)
  next
    case False
    with "2.prems"(2) have in_rest: "(sc, r) \<in> set rest" by auto
    with "2.prems"(1) have ne: "symbol sc \<noteq> symbol a" by force
    from "2.prems"(1) have d: "distinct (map (\<lambda>z. symbol (fst z)) rest)" by simp
    let ?acc = "case c (symbol a) of Some cached \<Rightarrow> stock_data_map(symbol a \<mapsto> cached)
                | None \<Rightarrow> stock_data_map"
    have ih: "collect_results c rest ?acc (symbol sc) =
                (case r of Inr d \<Rightarrow> Some d
                 | Inl e \<Rightarrow> (case c (symbol sc) of Some x \<Rightarrow> Some x | None \<Rightarrow> ?acc (symbol sc)))"
      by (rule "2.IH" [OF d in_rest])
    have acc: "?acc (symbol sc) = stock_data_map (symbol sc)"
      using ne by (simp split: option.splits)
    show ?thesis unfolding collect_results.simps ih acc ..
  qed
next
  case (3 c a result rest stock_data_map)
  show ?case
  proof (cases "(sc, r) = (a, Inr result)")
    case True
    with "3.prems" have "symbol sc \<notin> symbol ` fst ` set rest" by auto
    with True show ?thesis
      by (simp add: collect_results_other)
  next
    case False
    with "3.prems"(2) have in_rest: "(sc, r) \<in> set rest" by auto
    with "3.prems"(1) have ne: "symbol sc \<noteq> symbol a" by force
    from "3.prems"(1) have d: "distinct (map (\<lambda>z. symbol (fst z)) rest)" by simp
    let ?acc = "stock_data_map(symbol a \<mapsto> result)"
    have ih: "collect_results c rest ?acc (symbol sc) =
                (case r of Inr d \<Rightarrow> Some d
                 | Inl e \<Rightarrow> (case c (symbol sc) of Some x \<Rightarrow> Some x | None \<Rightarrow> ?acc (symbol sc)))"
      by (rule "3.IH" [OF d in_rest])
    have acc: "?acc (symbol sc) = stock_data_map (symbol sc)"
      using ne by simp
    show ?thesis unfolding collect_results.simps ih acc ..
  qed
qed

lemma gather_cache_other:
  "s \<notin> symbol ` set scs \<Longrightarrow> cache (snd (gather rt m now prov i scs)) s = cache m s"
proof (induction scs arbitrary: m i)
  case Nil
  then show ?case by simp
next
  case (Cons a scs)
  then show ?case
    unfolding gather_Cons_snd
    by (auto simp: get_stock_data_cache split: sum.splits)
qed

lemma gather_distinct:
  "distinct (map symbol scs) \<Longrightarrow> j < length scs \<Longrightarrow>
   (case fst (gather rt m now prov i scs) ! j of Inr d \<Rightarrow> Some d | Inl e \<Rightarrow> None)
     = fetched_value rt m now (prov (i + j) (symbol (scs ! j))) (scs ! j)
   \<and> cache (snd (gather rt m now prov i scs)) (symbol (scs ! j))
     = fetched_value rt m now (prov (i + j) (symbol (scs ! j))) (scs ! j)"
proof (induction scs arbitrary: m i j)
  case Nil
  then show ?case by simp
next
  case (Cons a scs)
  let ?m1 = "snd (get_stock_data rt m a now (prov i (symbol a)))"
  show ?case
  proof (cases j)
    case 0
    from Cons.prems have "symbol a \<notin> symbol ` set scs" by auto
    then have "cache (snd (gather rt ?m1 now prov (Suc i) scs)) (symbol a) = cache ?m1 (symbol a)"
      by (rule gather_cache_other)
    with 0 show ?thesis
      unfolding gather_Cons_snd gather_Cons_fst
      by (simp add: get_stock_data_result get_stock_data_cache fetched_value_def
          split: sum.splits option.splits)
  next
    case (Suc j')
    with Cons.prems have d: "distinct (map symbol scs)" and j': "j' < length scs"
      and notin: "symbol a \<notin> symbol ` set scs" by auto
    from j' have "symbol (scs ! j') \<in> symbol ` set scs" by simp
    with notin have ne: "symbol (scs ! j') \<noteq> symbol a" by metis
    have same: "cache ?m1 (symbol (scs ! j')) = cache m (symbol (scs ! j'))"
      using ne by (simp add: get_stock_data_cache split: sum.splits)
    have fv: "fetched_value rt ?m1 now resp (scs ! j') = fetched_value rt m now resp (scs ! j')" for resp
      unfolding fetched_value_def same ..
    from Cons.IH [OF d j', of ?m1 "Suc i"] Suc show ?thesis
      unfolding gather_Cons_snd gather_Cons_fst by (simp add: fv)
  qed
qed

lemma check_multiple_stocks_value:
  assumes "distinct (map symbol scs)" and "j < length scs"
  shows "fst (check_multiple_stocks rt m now prov scs) (symbol (scs ! j))
           = fetched_value rt m now (prov j (symbol (scs ! j))) (scs ! j)"
proof -
  let ?rs = "fst (gather rt m now prov 0 scs)"
  let ?c = "cache (snd (gather rt m now prov 0 scs))"
  have fm: "fst (check_multiple_stocks rt m now prov scs) = collect_results ?c (zip scs ?rs) Map.empty"
    by (simp add: check_multiple_stocks_def case_prod_beta)
  have len: "length ?rs = length scs" by (rule gather_length)
  have "map (\<lambda>z. symbol (fst z)) (zip scs ?rs) = map symbol (map fst (zip scs ?rs))" by simp
  also have "\<dots> = map symbol scs" using len by simp
  finally have dz: "distinct (map (\<lambda>z. symbol (fst z)) (zip scs ?rs))" using assms(1) by simp
  have mem: "(scs ! j, ?rs ! j) \<in> set (zip scs ?rs)"
    using assms(2) len by (auto simp: set_zip)
  from gather_distinct [OF assms, of rt m now prov 0]
  have g: "(case ?rs ! j of Inr d \<Rightarrow> Some d | Inl e \<Rightarrow> None)
             = fetched_value rt m now (prov j (symbol (scs ! j))) (scs ! j)"
    "?c (symbol (scs ! j)) = fetched_value rt m now (prov j (symbol (scs ! j))) (scs ! j)"
    by simp_all
  show ?thesis
    unfolding fm collect_results_value [OF dz mem]
    using g by (simp split: sum.splits option.splits)
qed

text \<open>
  Claim C6. A symbol is in the map returned by \<^verbatim>\<open>check_multiple_stocks\<close> exactly when
  it is the symbol of an instrument of the batch and either some call for it yields a fresh
  snapshot or the cache held a snapshot for it beforehand. For a batch of distinct symbols
  the entry of each symbol is what its own single-instrument fetch returns on the state
  before the batch: the fresh snapshot, the cached one when the fresh fetch fails, and no
  entry when it fails with nothing cached. No other instrument of the batch enters into
  it.
\<close>

theorem fetch_many_presence:
  "(s \<in> dom (fst (check_multiple_stocks rt m now prov scs)) \<longleftrightarrow>
      s \<in> symbol ` set scs
      \<and> (s \<in> dom (cache m)
         \<or> (\<exists>j<length scs. symbol (scs ! j) = s
                \<and> (\<exists>d. try_body rt (scs ! j) now (prov j s) = Inr d))))
   \<and> (distinct (map symbol scs) \<longrightarrow>
        (\<forall>j<length scs.
           fst (check_multiple_stocks rt m now prov scs) (symbol (scs ! j)) =
             (case fst (get_stock_data rt m (scs ! j) now (prov j (symbol (scs ! j)))) of
                Inr d \<Rightarrow> Some d | Inl e \<Rightarrow> None)))"
proof (intro conjI impI allI)
  have "{symbol (scs ! j) | j. j < length scs \<and> fresh_ok rt now prov scs 0 j}
          = {s. \<exists>j<length scs. symbol (scs ! j) = s
                  \<and> (\<exists>d. try_body rt (scs ! j) now (prov j s) = Inr d)}"
    by (auto simp: fresh_ok_iff)
  then show "s \<in> dom (fst (check_multiple_stocks rt m now prov scs)) \<longleftrightarrow>
      s \<in> symbol ` set scs
      \<and> (s \<in> dom (cache m)
         \<or> (\<exists>j<length scs. symbol (scs ! j) = s
                \<and> (\<exists>d. try_body rt (scs ! j) now (prov j s) = Inr d)))"
    unfolding check_multiple_stocks_dom gather_cache_dom by blast
next
  fix j assume d: "distinct (map symbol scs)" and j: "j < length scs"
  have "(case fst (get_stock_data rt m (scs ! j) now (prov j (symbol (scs ! j)))) of
           Inr d \<Rightarrow> Some d | Inl e \<Rightarrow> None)
        = fetched_value rt m now (prov j (symbol (scs ! j))) (scs ! j)"
    by (simp add: get_stock_data_result fetched_value_def split: sum.splits option.splits)
  with check_multiple_stocks_value [OF d j, of rt m now prov]
  show "fst (check_multiple_stocks rt m now prov scs) (symbol (scs ! j)) =
          (case fst (get_stock_data rt m (scs ! j) now (prov j (symbol (scs ! j)))) of
             Inr d \<Rightarrow> Some d | Inl e \<Rightarrow> None)"
    by simp
qed

lemma ex_try_x: "try_body ideal_runtime ex_stock ''t'' (ex_provider j ''X'') = Inr ex_snapshot"
  by (simp add: try_body_def ex_provider_def ex_compute)

lemma ex_try_y: "try_body ideal_runtime ex_stock_y ''t'' (ex_provider j ''Y'') = Inl ProviderError"
  by (simp add: try_body_def ex_provider_def)

lemma ex_try_z: "try_body ideal_runtime ex_stock_z ''t'' (ex_provider j ''Z'') = Inl ValueError"
  by (simp add: try_body_def ex_provider_def ex_compute_no_data)

theorem fetch_many_presence_witness:
  "distinct (map symbol ex_batch)
   \<and> fst (check_multiple_stocks ideal_runtime ex_monitor_y ''t'' ex_provider ex_batch) ''X'' = Some ex_snapshot
   \<and> fst (check_multiple_stocks ideal_runtime ex_monitor_y ''t'' ex_provider ex_batch) ''Y'' = Some ex_snapshot_y
   \<and> fst (check_multiple_stocks ideal_runtime ex_monitor_y ''t'' ex_provider ex_batch) ''Z'' = None
   \<and> ''W'' \<notin> dom (fst (check_multiple_stocks ideal_runtime ex_monitor_y ''t'' ex_provider ex_batch))"
proof -
  have d: "distinct (map symbol ex_batch)"
    by (simp add: ex_batch_def ex_stock_def ex_stock_y_def ex_stock_z_def)
  have sx: "symbol ex_stock = ''X''" and sy: "symbol ex_stock_y = ''Y''"
    and sz: "symbol ex_stock_z = ''Z''"
    by (simp_all add: ex_stock_def ex_stock_y_def ex_stock_z_def)
  have cy: "cache ex_monitor_y ''Y'' = Some ex_snapshot_y" and cz: "cache ex_monitor_y ''Z'' = None"
    by (simp_all add: ex_monitor_y_def)
  note t = fetch_many_presence [of _ ideal_runtime ex_monitor_y "''t''" ex_provider ex_batch]
  from t [of "''W''"] have w: "''W'' \<notin> dom (fst (check_multiple_stocks ideal_runtime ex_monitor_y ''t'' ex_provider ex_batch))"
    by (simp add: ex_batch_def sx sy sz)
  from t [of "''W''"] d have v: "\<forall>j<length ex_batch.
           fst (check_multiple_stocks ideal_runtime ex_monitor_y ''t'' ex_provider ex_batch) (symbol (ex_batch ! j)) =
             (case fst (get_stock_data ideal_runtime ex_monitor_y (ex_batch ! j) ''t'' (ex_provider j (symbol (ex_batch ! j)))) of
                Inr d \<Rightarrow> Some d | Inl e \<Rightarrow> None)"
    by blast
  have b: "ex_batch ! 0 = ex_stock" "ex_batch ! Suc 0 = ex_stock_y" "ex_batch ! 2 = ex_stock_z"
    "length ex_batch = 3"
    by (simp_all add: ex_batch_def)
  from v [rule_format, of 0]
  have x: "fst (check_multiple_stocks ideal_runtime ex_monitor_y ''t'' ex_provider ex_batch) ''X'' = Some ex_snapshot"
    by (simp add: b sx get_stock_data_result ex_try_x)
  from v [rule_format, of 1]
  have y: "fst (check_multiple_stocks ideal_runtime ex_monitor_y ''t'' ex_provider ex_batch) ''Y'' = Some ex_snapshot_y"
    by (simp add: b sy get_stock_data_result ex_try_y cy)
  from v [rule_format, of 2]
  have z: "fst (check_multiple_stocks ideal_runtime ex_monitor_y ''t'' ex_provider ex_batch) ''Z'' = None"
    by (simp add: b sz get_stock_data_result ex_try_z cz)
  from d w x y z show ?thesis by simp
qed

section \<open>Properties of the dispatcher and the pipeline\<close>

lemma send_alert_returns:
  "\<exists>out. send_alert config tr k r subj content =
           Inr \<lparr> call_recipient = r, call_subject = subj, call_content = content,
                 call_outcome = out \<rparr>"
  by (simp add: send_alert_def Let_def split: sum.splits)


lemma send_alert_key:
  "send_alert config tr k r subj content = Inr c \<Longrightarrow> call_key c = (r, subj, content)"
  using send_alert_returns [of config tr k r subj content]
  by (auto simp: call_key_def)

lemma process_recipients_calls:
  "map call_key (process_recipients config tr fetched configs cur sch thr k rs)
     = planned_sends fetched configs cur sch thr rs"
proof (induction rs arbitrary: k)
  case Nil
  then show ?case by simp
next
  case (Cons r rs)
  show ?case
  proof (cases "recipient_decision fetched configs cur sch thr r")
    case None
    then show ?thesis
      using Cons.IH [of k] by simp
  next
    case (Some sc)
    obtain subj content where sc: "sc = (subj, content)" by (cases sc)
    from send_alert_returns [of config tr k r subj content]
    obtain c where c: "send_alert config tr k r subj content = Inr c" by blast
    from send_alert_key [OF c] Some sc show ?thesis
      using Cons.IH [of "Suc k"] c by simp
  qed
qed

lemma planned_sends_set:
  "(r, subj, content) \<in> set (planned_sends fetched configs cur sch thr rs) \<longleftrightarrow>
     r \<in> set rs \<and> recipient_decision fetched configs cur sch thr r = Some (subj, content)"
  by (induction rs) (auto split: option.splits)

lemma process_recipients_set:
  "(\<exists>c\<in>set (process_recipients config tr fetched configs cur sch thr k rs).
       call_key c = (r, subj, content)) \<longleftrightarrow>
     r \<in> set rs \<and> recipient_decision fetched configs cur sch thr r = Some (subj, content)"
proof -
  have "(\<exists>c\<in>set (process_recipients config tr fetched configs cur sch thr k rs).
           call_key c = (r, subj, content))
        \<longleftrightarrow> (r, subj, content) \<in> set (map call_key
               (process_recipients config tr fetched configs cur sch thr k rs))"
    by force
  then show ?thesis
    unfolding process_recipients_calls planned_sends_set .
qed

lemma breach_test:
  "num_lt (dict_get (d_security_cover d) (Num PyInt (Fin 999))) (security_cover_threshold sc)
     = is_cover_breached d sc"
  by (simp add: is_cover_breached_def)

lemma is_any_cover_breached_iff:
  "is_any_cover_breached configs ds \<longleftrightarrow>
     (\<exists>d\<in>set ds. \<exists>sc. config_for configs d = Some sc \<and> is_cover_breached d sc)"
  by (induction ds) (auto simp: is_cover_breached_def split: option.splits)

lemma set_recipient_stock_data:
  "set (recipient_stock_data fetched ss) = {d. \<exists>s\<in>set ss. fetched s = Some d}"
  by (induction ss) (auto split: option.splits)

lemma recipient_any_breached_iff:
  "is_any_cover_breached configs (recipient_stock_data fetched ss) \<longleftrightarrow>
     (\<exists>s\<in>set ss. \<exists>d sc. fetched s = Some d \<and> config_for configs d = Some sc
                       \<and> is_cover_breached d sc)"
  unfolding is_any_cover_breached_iff set_recipient_stock_data by blast

lemma recipient_stock_data_nonempty:
  "recipient_stock_data fetched ss \<noteq> [] \<longleftrightarrow> (\<exists>s\<in>set ss. s \<in> dom fetched)"
proof -
  have "recipient_stock_data fetched ss \<noteq> [] \<longleftrightarrow> set (recipient_stock_data fetched ss) \<noteq> {}"
    by simp
  also have "\<dots> \<longleftrightarrow> (\<exists>s\<in>set ss. s \<in> dom fetched)"
    unfolding set_recipient_stock_data by auto
  finally show ?thesis .
qed

lemma threat_decision:
  "recipient_decision fetched configs cur False True r = Some (subj, content)
   \<Longrightarrow> pref_get (alert_preferences r) ''threat_alerts''
       \<and> is_any_cover_breached configs (recipient_stock_data fetched (subscribed_symbols r))"
  by (simp add: recipient_decision_def Let_def split: if_splits)

lemma scheduled_decision:
  "recipient_decision fetched configs cur True False r =
     (if pref_get (alert_preferences r) ''scheduled_reports''
         \<and> recipient_stock_data fetched (subscribed_symbols r) \<noteq> []
      then Some (''Scheduled Report - ''
                  @ (if is_any_cover_breached configs
                          (recipient_stock_data fetched (subscribed_symbols r))
                     then ''BOT ALERT!'' else ''Stock Update''),
                 format_grouped_alert (recipient_stock_data fetched (subscribed_symbols r))
                   configs cur)
      else None)"
  by (simp add: recipient_decision_def Let_def)

lemma check_multiple_stocks_Nil: "fst (check_multiple_stocks rt m now prov []) = Map.empty"
  by (simp add: check_multiple_stocks_def)

lemma check_all_stocks_calls:
  "fst (check_all_stocks rt cfg m now prov tr sch thr) =
     (if stocks cfg = [] \<or> recipients cfg = [] then []
      else process_recipients (email_sender cfg) tr
             (fst (check_multiple_stocks rt m now prov (stocks cfg))) (stocks cfg)
             (currency_symbol cfg) sch thr 0 (recipients cfg))"
  by (simp add: check_all_stocks_def case_prod_beta)

lemma planned_recipients:
  "map call_recipient (process_recipients config tr fetched configs cur sch thr k rs)
     = map fst (planned_sends fetched configs cur sch thr rs)"
proof -
  have "map call_recipient (process_recipients config tr fetched configs cur sch thr k rs)
          = map fst (map call_key (process_recipients config tr fetched configs cur sch thr k rs))"
    by (simp add: call_key_def)
  then show ?thesis unfolding process_recipients_calls .
qed

lemma ex_price_recovered:
  "current_price_logic ex_quote_recovered
     = Inr (Num NpFloat (Fin 7), PNum (Num PyInt (Fin 1000)))"
  by (simp add: current_price_logic_def ex_quote_recovered_def ex_quote_def)

lemma ex_compute_recovered:
  "compute_stock_data ideal_runtime ex_stock ''t'' ex_quote_recovered = Inr ex_snapshot_recovered"
  by (simp add: compute_stock_data_def ex_price_recovered Let_def)
     (simp add: ex_quote_recovered_def ex_quote_def build_snapshot_def ideal_eval ex_stock_def
        ex_snapshot_recovered_def ex_snapshot_def info_get_def)

lemma ex_symbol: "symbol ex_stock = ''X''"
  by (simp add: ex_stock_def)

lemma ex_fetched:
  "fst (check_multiple_stocks ideal_runtime ex_monitor ''t'' ex_provider [ex_stock]) = [''X'' \<mapsto> ex_snapshot]"
  by (simp add: check_multiple_stocks_def get_stock_data_def ex_symbol ex_try_x)

lemma ex_fetched_recovered:
  "fst (check_multiple_stocks ideal_runtime ex_monitor ''t'' ex_provider_recovered [ex_stock])
     = [''X'' \<mapsto> ex_snapshot_recovered]"
  by (simp add: check_multiple_stocks_def get_stock_data_def try_body_def
        ex_provider_recovered_def ex_compute_recovered ex_symbol)

lemma ex_breached: "is_cover_breached ex_snapshot ex_stock"
  by (simp add: is_cover_breached_def dict_get_def num_lt_def ex_snapshot_def ex_stock_def)

lemma ex_not_breached: "\<not> is_cover_breached ex_snapshot_recovered ex_stock"
  by (simp add: is_cover_breached_def dict_get_def num_lt_def ex_snapshot_recovered_def
        ex_snapshot_def ex_stock_def)

lemma ex_config_for:
  "config_for [ex_stock] ex_snapshot = Some ex_stock"
  "config_for [ex_stock] ex_snapshot_recovered = Some ex_stock"
  by (simp_all add: config_for_def ex_snapshot_recovered_def ex_snapshot_def ex_stock_def)

text \<open>
  Claim C1. In a threat-scan run, a recipient none of whose subscribed symbols has a
  breached snapshot in the run's map is never passed to \<^verbatim>\<open>send_alert\<close>, whatever the
  recipient's preferences are.
\<close>

theorem threat_scan_clean_pass_silent:
  assumes "\<not> (\<exists>s\<in>set (subscribed_symbols r). \<exists>d sc.
               fst (check_multiple_stocks rt m now prov (stocks cfg)) s = Some d
               \<and> config_for (stocks cfg) d = Some sc \<and> is_cover_breached d sc)"
  shows "r \<notin> call_recipient ` set (fst (continuous_threat_check rt cfg m now prov tr))"
proof
  let ?fetched = "fst (check_multiple_stocks rt m now prov (stocks cfg))"
  assume "r \<in> call_recipient ` set (fst (continuous_threat_check rt cfg m now prov tr))"
  then obtain c where c: "c \<in> set (fst (check_all_stocks rt cfg m now prov tr False True))"
    and r: "call_recipient c = r"
    by (auto simp: continuous_threat_check_def)
  from c have "c \<in> set (process_recipients (email_sender cfg) tr ?fetched (stocks cfg)
                           (currency_symbol cfg) False True 0 (recipients cfg))"
    by (simp add: check_all_stocks_calls split: if_splits)
  moreover from r have "call_key c = (r, call_subject c, call_content c)"
    by (simp add: call_key_def)
  ultimately have "recipient_decision ?fetched (stocks cfg) (currency_symbol cfg) False True r
                     = Some (call_subject c, call_content c)"
    using process_recipients_set by blast
  then have "is_any_cover_breached (stocks cfg)
               (recipient_stock_data ?fetched (subscribed_symbols r))"
    by (rule threat_decision [THEN conjunct2])
  with assms show False
    unfolding recipient_any_breached_iff by blast
qed

theorem threat_scan_clean_pass_silent_witness:
  "\<not> is_cover_breached ex_snapshot_recovered ex_stock
   \<and> pref_get (alert_preferences ex_alice) ''threat_alerts''
   \<and> ex_alice \<notin> call_recipient `
        set (fst (continuous_threat_check ideal_runtime ex_cfg ex_monitor ''t'' ex_provider_recovered
                    ex_transport_up))"
proof -
  have "\<not> (\<exists>s\<in>set (subscribed_symbols ex_alice). \<exists>d sc.
               fst (check_multiple_stocks ideal_runtime ex_monitor ''t'' ex_provider_recovered (stocks ex_cfg)) s
                 = Some d
               \<and> config_for (stocks ex_cfg) d = Some sc \<and> is_cover_breached d sc)"
    by (simp add: ex_cfg_def ex_fetched_recovered ex_alice_def post_init_def ex_config_for
          breach_test ex_not_breached)
  from threat_scan_clean_pass_silent [OF this] show ?thesis
    by (simp add: breach_test ex_not_breached ex_alice_def post_init_def pref_get_def
          default_alert_preferences_def)
qed

lemma ex_threat_scan_breached:
  "map call_recipient
     (fst (continuous_threat_check ideal_runtime ex_cfg ex_monitor ''t'' ex_provider ex_transport_up))
     = [ex_alice, ex_bob]
   \<and> map call_subject
     (fst (continuous_threat_check ideal_runtime ex_cfg ex_monitor ''t'' ex_provider ex_transport_up))
     = [''BOT ALERT!'', ''BOT ALERT!'']"
  by (simp add: continuous_threat_check_def check_all_stocks_calls ex_cfg_def ex_fetched
        recipient_decision_def ex_alice_def ex_bob_def post_init_def pref_get_def
        default_alert_preferences_def ex_config_for breach_test ex_breached Let_def send_alert_def
        send_smtp_email_def ex_transport_up_def ex_sender_def)

text \<open>
  Claim C2. In a scheduled run, a configured recipient whose \<^verbatim>\<open>scheduled_reports\<close>
  preference is true (or unset, which reads as true) and who has a subscribed symbol in
  the run's map is passed to \<^verbatim>\<open>send_alert\<close>, breached or not. The subject is
  \<^verbatim>\<open>Scheduled Report - BOT ALERT!\<close> when some subscribed symbol's snapshot in the map is
  breached against its instrument's threshold and \<^verbatim>\<open>Scheduled Report - Stock Update\<close>
  otherwise, in every call made for that recipient.
\<close>

theorem scheduled_report_always_sent:
  assumes "r \<in> set (recipients cfg)"
    and "pref_get (alert_preferences r) ''scheduled_reports''"
    and "\<exists>s\<in>set (subscribed_symbols r).
           s \<in> dom (fst (check_multiple_stocks rt m now prov (stocks cfg)))"
  shows "(\<exists>c\<in>set (fst (scheduled_check rt cfg m now prov tr)). call_recipient c = r)
       \<and> (\<forall>c\<in>set (fst (scheduled_check rt cfg m now prov tr)).
            call_recipient c = r \<longrightarrow>
            call_subject c =
              (if \<exists>s\<in>set (subscribed_symbols r). \<exists>d sc.
                    fst (check_multiple_stocks rt m now prov (stocks cfg)) s = Some d
                    \<and> config_for (stocks cfg) d = Some sc \<and> is_cover_breached d sc
               then ''Scheduled Report - BOT ALERT!''
               else ''Scheduled Report - Stock Update''))"
proof -
  let ?fetched = "fst (check_multiple_stocks rt m now prov (stocks cfg))"
  let ?rsd = "recipient_stock_data ?fetched (subscribed_symbols r)"
  let ?subject = "''Scheduled Report - ''
                  @ (if is_any_cover_breached (stocks cfg) ?rsd
                     then ''BOT ALERT!'' else ''Stock Update'')"
  let ?content = "format_grouped_alert ?rsd (stocks cfg) (currency_symbol cfg)"
  let ?calls = "process_recipients (email_sender cfg) tr ?fetched (stocks cfg)
                  (currency_symbol cfg) True False 0 (recipients cfg)"
  from assms(3) have "stocks cfg \<noteq> []"
    by (auto simp: check_multiple_stocks_Nil)
  moreover from assms(1) have "recipients cfg \<noteq> []" by auto
  ultimately have calls: "fst (scheduled_check rt cfg m now prov tr) = ?calls"
    by (simp add: scheduled_check_def check_all_stocks_calls)
  from assms(3) have ne: "?rsd \<noteq> []"
    by (simp add: recipient_stock_data_nonempty)
  with assms(2) have dec:
    "recipient_decision ?fetched (stocks cfg) (currency_symbol cfg) True False r
       = Some (?subject, ?content)"
    by (simp add: scheduled_decision)
  have subj: "?subject =
              (if \<exists>s\<in>set (subscribed_symbols r). \<exists>d sc.
                    ?fetched s = Some d
                    \<and> config_for (stocks cfg) d = Some sc \<and> is_cover_breached d sc
               then ''Scheduled Report - BOT ALERT!''
               else ''Scheduled Report - Stock Update'')"
    unfolding recipient_any_breached_iff by simp
  from dec assms(1) obtain c where "c \<in> set ?calls" "call_key c = (r, ?subject, ?content)"
    using process_recipients_set [of "email_sender cfg" tr ?fetched "stocks cfg"
            "currency_symbol cfg" True False 0 "recipients cfg" r ?subject ?content]
    by blast
  then have ex: "\<exists>c\<in>set ?calls. call_recipient c = r"
    by (auto simp: call_key_def)
  have all: "call_subject c = ?subject" if "c \<in> set ?calls" "call_recipient c = r" for c
  proof -
    from that have "call_key c = (r, call_subject c, call_content c)"
      by (simp add: call_key_def)
    with that(1) have "recipient_decision ?fetched (stocks cfg) (currency_symbol cfg) True False r
                         = Some (call_subject c, call_content c)"
      using process_recipients_set by blast
    with dec show ?thesis by simp
  qed
  from ex all show ?thesis
    unfolding calls subj [symmetric] by blast
qed

theorem scheduled_report_always_sent_witness:
  "(\<exists>c\<in>set (fst (scheduled_check ideal_runtime ex_cfg ex_monitor ''t'' ex_provider ex_transport_up)).
      call_recipient c = ex_alice \<and> call_subject c = ''Scheduled Report - BOT ALERT!'')
   \<and> (\<exists>c\<in>set (fst (scheduled_check ideal_runtime ex_cfg ex_monitor ''t'' ex_provider_recovered
                       ex_transport_up)).
      call_recipient c = ex_alice \<and> call_subject c = ''Scheduled Report - Stock Update'')
   \<and> alert_preferences ex_bob ''scheduled_reports'' = None
   \<and> (\<exists>c\<in>set (fst (scheduled_check ideal_runtime ex_cfg ex_monitor ''t'' ex_provider_recovered
                       ex_transport_up)).
      call_recipient c = ex_bob \<and> call_subject c = ''Scheduled Report - Stock Update'')"
proof -
  have r: "ex_alice \<in> set (recipients ex_cfg)" by (simp add: ex_cfg_def)
  have p: "pref_get (alert_preferences ex_alice) ''scheduled_reports''"
    by (simp add: ex_alice_def post_init_def pref_get_def default_alert_preferences_def)
  have s1: "\<exists>s\<in>set (subscribed_symbols ex_alice).
              s \<in> dom (fst (check_multiple_stocks ideal_runtime ex_monitor ''t'' ex_provider (stocks ex_cfg)))"
    by (simp add: ex_cfg_def ex_fetched ex_alice_def post_init_def)
  have s2: "\<exists>s\<in>set (subscribed_symbols ex_alice).
              s \<in> dom (fst (check_multiple_stocks ideal_runtime ex_monitor ''t'' ex_provider_recovered
                             (stocks ex_cfg)))"
    by (simp add: ex_cfg_def ex_fetched_recovered ex_alice_def post_init_def)
  have b1: "\<exists>s\<in>set (subscribed_symbols ex_alice). \<exists>d sc.
               fst (check_multiple_stocks ideal_runtime ex_monitor ''t'' ex_provider (stocks ex_cfg)) s = Some d
               \<and> config_for (stocks ex_cfg) d = Some sc \<and> is_cover_breached d sc"
    by (simp add: ex_cfg_def ex_fetched ex_alice_def post_init_def ex_config_for breach_test ex_breached)
  have b2: "\<not> (\<exists>s\<in>set (subscribed_symbols ex_alice). \<exists>d sc.
               fst (check_multiple_stocks ideal_runtime ex_monitor ''t'' ex_provider_recovered (stocks ex_cfg)) s
                 = Some d
               \<and> config_for (stocks ex_cfg) d = Some sc \<and> is_cover_breached d sc)"
    by (simp add: ex_cfg_def ex_fetched_recovered ex_alice_def post_init_def ex_config_for
          breach_test ex_not_breached)
  from scheduled_report_always_sent [OF r p s1, of ex_transport_up] b1
  have "\<exists>c\<in>set (fst (scheduled_check ideal_runtime ex_cfg ex_monitor ''t'' ex_provider ex_transport_up)).
      call_recipient c = ex_alice \<and> call_subject c = ''Scheduled Report - BOT ALERT!''"
    by (simp only: if_True) blast
  moreover
  from scheduled_report_always_sent [OF r p s2, of ex_transport_up] b2
  have "\<exists>c\<in>set (fst (scheduled_check ideal_runtime ex_cfg ex_monitor ''t'' ex_provider_recovered
                       ex_transport_up)).
      call_recipient c = ex_alice \<and> call_subject c = ''Scheduled Report - Stock Update''"
    by (simp only: if_False) blast
  moreover
  have rb: "ex_bob \<in> set (recipients ex_cfg)" by (simp add: ex_cfg_def)
  have nb: "alert_preferences ex_bob ''scheduled_reports'' = None"
    by (simp add: ex_bob_def post_init_def)
  then have pb: "pref_get (alert_preferences ex_bob) ''scheduled_reports''"
    by (simp add: pref_get_def)
  have sb: "\<exists>s\<in>set (subscribed_symbols ex_bob).
              s \<in> dom (fst (check_multiple_stocks ideal_runtime ex_monitor ''t''
                             ex_provider_recovered (stocks ex_cfg)))"
    by (simp add: ex_cfg_def ex_fetched_recovered ex_bob_def post_init_def)
  have bb: "\<not> (\<exists>s\<in>set (subscribed_symbols ex_bob). \<exists>d sc.
               fst (check_multiple_stocks ideal_runtime ex_monitor ''t'' ex_provider_recovered
                      (stocks ex_cfg)) s = Some d
               \<and> config_for (stocks ex_cfg) d = Some sc \<and> is_cover_breached d sc)"
    by (simp add: ex_cfg_def ex_fetched_recovered ex_bob_def post_init_def ex_config_for
          breach_test ex_not_breached)
  from scheduled_report_always_sent [OF rb pb sb, of ex_transport_up] bb
  have "\<exists>c\<in>set (fst (scheduled_check ideal_runtime ex_cfg ex_monitor ''t'' ex_provider_recovered
                       ex_transport_up)).
      call_recipient c = ex_bob \<and> call_subject c = ''Scheduled Report - Stock Update''"
    by (simp only: if_False) blast
  ultimately show ?thesis using nb by blast
qed



section \<open>Properties of the manual trigger and of the breach checks\<close>

lemma ascii_upper_X: "ascii_upper ''X'' = ''X''"
  by code_simp

lemma ascii_upper_x: "ascii_upper ''x'' = ''X''"
  by code_simp

lemma send_to_all_calls:
  "\<exists>calls. send_to_all config tr k subj content rs = Inr calls
           \<and> map call_key calls = map (\<lambda>r. (r, subj, content)) rs"
proof (induction rs arbitrary: k)
  case Nil
  then show ?case by simp
next
  case (Cons r rs)
  from send_alert_returns [of config tr k r subj content]
  obtain c where c: "send_alert config tr k r subj content = Inr c" by blast
  from Cons.IH [of "Suc k"] obtain calls
    where calls: "send_to_all config tr (Suc k) subj content rs = Inr calls"
      "map call_key calls = map (\<lambda>r. (r, subj, content)) rs" by blast
  from c calls send_alert_key [OF c] show ?case by simp
qed

text \<open>
  The calls of the handler once the instrument is found and its snapshot fetched: one for
  each recipient that passes the handler's filter, all with one subject and one content.
\<close>

lemma trigger_manual_alert_calls:
  assumes "find (\<lambda>s. upper_op rt (symbol s) = upper_op rt symbol_str) (stocks cfg) = Some sc"
    and "get_stock_data rt m sc now (prov 0 (symbol sc)) = (Inr d, m1)"
  shows "map call_key (fst (snd (trigger_manual_alert rt cfg m now prov tr symbol_str))) =
           map (\<lambda>r. (r,
                     (if is_cover_breached d sc then ''BOT ALERT!'' else ''Manual Stock Update'')
                       @ '': '' @ symbol sc,
                     format_grouped_alert [d] [sc] (currency_symbol cfg)))
               (filter (\<lambda>r. upper_op rt symbol_str \<in> set (subscribed_symbols r)
                            \<and> pref_get (alert_preferences r) ''manual_alerts'')
                       (recipients cfg))"
proof -
  let ?rs = "filter (\<lambda>r. upper_op rt symbol_str \<in> set (subscribed_symbols r)
                         \<and> pref_get (alert_preferences r) ''manual_alerts'') (recipients cfg)"
  let ?subj = "(if is_cover_breached d sc then ''BOT ALERT!'' else ''Manual Stock Update'')
                 @ '': '' @ symbol sc"
  let ?content = "format_grouped_alert [d] [sc] (currency_symbol cfg)"
  from send_to_all_calls [of "email_sender cfg" tr 0 ?subj ?content ?rs]
  obtain calls where calls: "send_to_all (email_sender cfg) tr 0 ?subj ?content ?rs = Inr calls"
    "map call_key calls = map (\<lambda>r. (r, ?subj, ?content)) ?rs" by blast
  show ?thesis
  proof (cases "?rs = []")
    case True
    with assms show ?thesis
      by (simp add: trigger_manual_alert_def Let_def)
  next
    case False
    with assms calls show ?thesis
      by (simp add: trigger_manual_alert_def Let_def breach_test)
  qed
qed






lemma ex_find_x:
  "find (\<lambda>s. upper_op ideal_runtime (symbol s) = upper_op ideal_runtime ''x'') [ex_stock]
     = Some ex_stock"
  by (simp add: ideal_ops ex_symbol ascii_upper_X ascii_upper_x)






lemma with_config_blocks:
  "format_grouped_alert ds configs cur = map (\<lambda>(d, sc). render_block d sc) (with_config configs ds)"
  by (induction ds) (auto split: option.splits)

lemma with_config_set:
  "(d, sc) \<in> set (with_config configs ds) \<longleftrightarrow> d \<in> set ds \<and> config_for configs d = Some sc"
  by (induction ds) (auto split: option.splits)

text \<open>
  Claim C10. Each of the three breach checks compares the snapshot's cover ratio, or 999
  where the snapshot has no \<^verbatim>\<open>security_cover\<close> key, with the instrument's threshold,
  and never raises. The planner's aggregation is true exactly when that comparison holds
  for some snapshot of the list that has an instrument; the renderer makes one block for
  each such snapshot, in order, red where the comparison holds and blue where it does
  not; the manual trigger, once it has the snapshot, gives every call the alert subject
  where it holds and the plain subject where it does not, one call for each recipient
  that passes its filter. So a snapshot without the key counts as not breached for every
  threshold that does not exceed 999.
\<close>

theorem missing_cover_reads_as_999:
  "(is_any_cover_breached configs ds \<longleftrightarrow>
      (\<exists>d\<in>set ds. \<exists>sc. config_for configs d = Some sc
          \<and> num_lt (case d_security_cover d of None \<Rightarrow> Num PyInt (Fin 999) | Some c \<Rightarrow> c)
                   (security_cover_threshold sc)))
   \<and> map (\<lambda>b. (header_style b, cover_style b)) (format_grouped_alert ds configs cur)
       = map (\<lambda>(d, sc).
                if num_lt (case d_security_cover d of None \<Rightarrow> Num PyInt (Fin 999) | Some c \<Rightarrow> c)
                          (security_cover_threshold sc)
                then (''color: red;'', ''color: red; font-weight: bold;'')
                else (''color: blue;'', []))
             (with_config configs ds)
   \<and> (find (\<lambda>s. upper_op rt (symbol s) = upper_op rt symbol_str) (stocks cfg) = Some sc
       \<and> get_stock_data rt m sc now (prov 0 (symbol sc)) = (Inr d, m1) \<longrightarrow>
         map call_subject (fst (snd (trigger_manual_alert rt cfg m now prov tr symbol_str)))
           = map (\<lambda>r. (if num_lt (case d_security_cover d of
                                      None \<Rightarrow> Num PyInt (Fin 999) | Some c \<Rightarrow> c)
                                   (security_cover_threshold sc)
                        then ''BOT ALERT!'' else ''Manual Stock Update'') @ '': '' @ symbol sc)
               (filter (\<lambda>r. upper_op rt symbol_str \<in> set (subscribed_symbols r)
                            \<and> pref_get (alert_preferences r) ''manual_alerts'')
                       (recipients cfg)))
   \<and> (d_security_cover d' = None \<and> fval_le (fv (security_cover_threshold sc')) (Fin 999) \<longrightarrow>
         \<not> num_lt (case d_security_cover d' of None \<Rightarrow> Num PyInt (Fin 999) | Some c \<Rightarrow> c)
                  (security_cover_threshold sc'))"
proof (intro conjI impI)
  have b: "num_lt (case d_security_cover x of None \<Rightarrow> Num PyInt (Fin 999) | Some c \<Rightarrow> c)
                  (security_cover_threshold y) = is_cover_breached x y" for x y
    by (simp add: is_cover_breached_def dict_get_def)
  show "is_any_cover_breached configs ds \<longleftrightarrow>
      (\<exists>d\<in>set ds. \<exists>sc. config_for configs d = Some sc
          \<and> num_lt (case d_security_cover d of None \<Rightarrow> Num PyInt (Fin 999) | Some c \<Rightarrow> c)
                   (security_cover_threshold sc))"
    unfolding b by (rule is_any_cover_breached_iff)
  show "map (\<lambda>b. (header_style b, cover_style b)) (format_grouped_alert ds configs cur)
       = map (\<lambda>(d, sc).
                if num_lt (case d_security_cover d of None \<Rightarrow> Num PyInt (Fin 999) | Some c \<Rightarrow> c)
                          (security_cover_threshold sc)
                then (''color: red;'', ''color: red; font-weight: bold;'')
                else (''color: blue;'', []))
             (with_config configs ds)"
    unfolding b with_config_blocks
    by (simp add: render_block_def Let_def breach_test case_prod_beta)
  show "\<not> num_lt (case d_security_cover d' of None \<Rightarrow> Num PyInt (Fin 999) | Some c \<Rightarrow> c)
                  (security_cover_threshold sc')"
    if "d_security_cover d' = None \<and> fval_le (fv (security_cover_threshold sc')) (Fin 999)"
    using that by (simp add: num_lt_def fval_le_def)
  show "map call_subject (fst (snd (trigger_manual_alert rt cfg m now prov tr symbol_str)))
           = map (\<lambda>r. (if num_lt (case d_security_cover d of
                                      None \<Rightarrow> Num PyInt (Fin 999) | Some c \<Rightarrow> c)
                                   (security_cover_threshold sc)
                        then ''BOT ALERT!'' else ''Manual Stock Update'') @ '': '' @ symbol sc)
               (filter (\<lambda>r. upper_op rt symbol_str \<in> set (subscribed_symbols r)
                            \<and> pref_get (alert_preferences r) ''manual_alerts'')
                       (recipients cfg))"
    if a: "find (\<lambda>s. upper_op rt (symbol s) = upper_op rt symbol_str) (stocks cfg) = Some sc
           \<and> get_stock_data rt m sc now (prov 0 (symbol sc)) = (Inr d, m1)"
  proof -
    let ?calls = "fst (snd (trigger_manual_alert rt cfg m now prov tr symbol_str))"
    have "map call_subject ?calls = map (\<lambda>k. fst (snd k)) (map call_key ?calls)"
      by (simp add: call_key_def)
    then show ?thesis
      using trigger_manual_alert_calls [of rt symbol_str cfg sc m now prov d m1 tr] a
      by (simp add: comp_def b)
  qed
qed

lemma ex_config_for_bare:
  "config_for [ex_stock] ex_snapshot_bare = Some ex_stock"
  "config_for [ex_stock, ex_stock_y_strict] ex_snapshot_bare = Some ex_stock"
  "config_for [ex_stock, ex_stock_y_strict] ex_snapshot_y_bare = Some ex_stock_y_strict"
  by (simp_all add: config_for_def ex_snapshot_bare_def ex_snapshot_y_bare_def ex_snapshot_y_def
        ex_snapshot_def ex_stock_def ex_stock_y_strict_def ex_stock_y_def)

lemma ex_bare_cover:
  "d_security_cover ex_snapshot_bare = None" "d_security_cover ex_snapshot_y_bare = None"
  by (simp_all add: ex_snapshot_bare_def ex_snapshot_y_bare_def)

lemma ex_thresholds:
  "security_cover_threshold ex_stock = Num PyFloat (Fin (3 / 2))"
  "security_cover_threshold ex_stock_strict = Num PyInt (Fin 1000)"
  "security_cover_threshold ex_stock_y_strict = Num PyInt (Fin 1000)"
  by (simp_all add: ex_stock_def ex_stock_strict_def ex_stock_y_strict_def)

lemma ex_get_bare:
  "get_stock_data ideal_runtime ex_monitor_bare sc ''t'' (ex_provider_down 0 (symbol sc))
     = (case cache ex_monitor_bare (symbol sc) of
          Some cached \<Rightarrow> (Inr cached, ex_monitor_bare)
        | None \<Rightarrow> (Inl ProviderError, ex_monitor_bare))"
  by (simp add: get_stock_data_def try_body_def ex_provider_down_def)

lemma ex_manual_filter:
  "filter (\<lambda>r. upper_op ideal_runtime ''X'' \<in> set (subscribed_symbols r)
              \<and> pref_get (alert_preferences r) ''manual_alerts'') [ex_alice, ex_bob]
     = [ex_alice, ex_bob]"
  by (simp add: ideal_ops ascii_upper_X ex_alice_def ex_bob_def post_init_def pref_get_def
        default_alert_preferences_def)

theorem missing_cover_reads_as_999_witness:
  "\<not> is_any_cover_breached [ex_stock] [ex_snapshot_bare]
   \<and> is_any_cover_breached [ex_stock, ex_stock_y_strict] [ex_snapshot_bare, ex_snapshot_y_bare]
   \<and> map (\<lambda>b. (header_style b, cover_style b))
        (format_grouped_alert [ex_snapshot_bare, ex_snapshot_y_bare]
           [ex_stock, ex_stock_y_strict] ''Rs'')
       = [(''color: blue;'', []), (''color: red;'', ''color: red; font-weight: bold;'')]
   \<and> map call_subject
        (fst (snd (trigger_manual_alert ideal_runtime ex_cfg ex_monitor_bare ''t''
                     ex_provider_down ex_transport_up ''X'')))
       = [''Manual Stock Update: X'', ''Manual Stock Update: X'']
   \<and> map call_subject
        (fst (snd (trigger_manual_alert ideal_runtime ex_cfg_strict ex_monitor_bare ''t''
                     ex_provider_down ex_transport_up ''X'')))
       = [''BOT ALERT!: X'', ''BOT ALERT!: X'']"
proof -
  note lt = num_lt_def ex_bare_cover ex_thresholds
  note one = missing_cover_reads_as_999
    [where configs = "[ex_stock]" and ds = "[ex_snapshot_bare]", THEN conjunct1]
  have "\<not> (\<exists>d\<in>set [ex_snapshot_bare]. \<exists>sc. config_for [ex_stock] d = Some sc
          \<and> num_lt (case d_security_cover d of None \<Rightarrow> Num PyInt (Fin 999) | Some c \<Rightarrow> c)
                   (security_cover_threshold sc))"
    by (simp add: ex_config_for_bare lt)
  then have 1: "\<not> is_any_cover_breached [ex_stock] [ex_snapshot_bare]"
    unfolding one .
  note two = missing_cover_reads_as_999
    [where configs = "[ex_stock, ex_stock_y_strict]"
       and ds = "[ex_snapshot_bare, ex_snapshot_y_bare]" and cur = "''Rs''"]
  have "\<exists>d\<in>set [ex_snapshot_bare, ex_snapshot_y_bare]. \<exists>sc.
          config_for [ex_stock, ex_stock_y_strict] d = Some sc
          \<and> num_lt (case d_security_cover d of None \<Rightarrow> Num PyInt (Fin 999) | Some c \<Rightarrow> c)
                   (security_cover_threshold sc)"
    by (simp add: ex_config_for_bare lt)
  then have 2: "is_any_cover_breached [ex_stock, ex_stock_y_strict]
             [ex_snapshot_bare, ex_snapshot_y_bare]"
    unfolding two [THEN conjunct1] .
  have "map (\<lambda>(d, sc).
                if num_lt (case d_security_cover d of None \<Rightarrow> Num PyInt (Fin 999) | Some c \<Rightarrow> c)
                          (security_cover_threshold sc)
                then (''color: red;'', ''color: red; font-weight: bold;'')
                else (''color: blue;'', []))
             (with_config [ex_stock, ex_stock_y_strict] [ex_snapshot_bare, ex_snapshot_y_bare])
        = [(''color: blue;'', []), (''color: red;'', ''color: red; font-weight: bold;'')]"
    by (simp add: ex_config_for_bare lt)
  then have 3: "map (\<lambda>b. (header_style b, cover_style b))
        (format_grouped_alert [ex_snapshot_bare, ex_snapshot_y_bare]
           [ex_stock, ex_stock_y_strict] ''Rs'')
       = [(''color: blue;'', []), (''color: red;'', ''color: red; font-weight: bold;'')]"
    unfolding two [THEN conjunct2, THEN conjunct1] .
  have f: "find (\<lambda>s. upper_op ideal_runtime (symbol s) = upper_op ideal_runtime ''X'')
             (stocks ex_cfg) = Some ex_stock"
    by (simp add: ex_cfg_def ex_symbol)
  have g: "get_stock_data ideal_runtime ex_monitor_bare ex_stock ''t''
             (ex_provider_down 0 (symbol ex_stock)) = (Inr ex_snapshot_bare, ex_monitor_bare)"
    using ex_get_bare [of ex_stock] by (simp add: ex_symbol ex_monitor_bare_def)
  note three = missing_cover_reads_as_999
         [where rt = ideal_runtime and symbol_str = "''X''" and cfg = ex_cfg and sc = ex_stock
            and m = ex_monitor_bare and now = "''t''" and prov = ex_provider_down
            and d = ex_snapshot_bare and ?m1.0 = ex_monitor_bare and tr = ex_transport_up,
          THEN conjunct2, THEN conjunct2, THEN conjunct1, rule_format]
  have r: "recipients ex_cfg = [ex_alice, ex_bob]"
    by (simp add: ex_cfg_def)
  have 4: "map call_subject
        (fst (snd (trigger_manual_alert ideal_runtime ex_cfg ex_monitor_bare ''t''
                     ex_provider_down ex_transport_up ''X'')))
       = [''Manual Stock Update: X'', ''Manual Stock Update: X'']"
    unfolding three [OF conjI [OF f g]] r ex_manual_filter
    by (simp add: lt ex_symbol)
  have fs: "find (\<lambda>s. upper_op ideal_runtime (symbol s) = upper_op ideal_runtime ''X'')
              (stocks ex_cfg_strict) = Some ex_stock_strict"
    by (simp add: ex_cfg_strict_def ex_stock_strict_def ex_symbol)
  have gs: "get_stock_data ideal_runtime ex_monitor_bare ex_stock_strict ''t''
              (ex_provider_down 0 (symbol ex_stock_strict))
              = (Inr ex_snapshot_bare, ex_monitor_bare)"
    using ex_get_bare [of ex_stock_strict]
    by (simp add: ex_stock_strict_def ex_symbol ex_monitor_bare_def)
  note four = missing_cover_reads_as_999
         [where rt = ideal_runtime and symbol_str = "''X''" and cfg = ex_cfg_strict
            and sc = ex_stock_strict and m = ex_monitor_bare and now = "''t''"
            and prov = ex_provider_down and d = ex_snapshot_bare and ?m1.0 = ex_monitor_bare
            and tr = ex_transport_up,
          THEN conjunct2, THEN conjunct2, THEN conjunct1, rule_format]
  have rs: "recipients ex_cfg_strict = [ex_alice, ex_bob]"
    by (simp add: ex_cfg_strict_def ex_cfg_def)
  have ss: "symbol ex_stock_strict = ''X''"
    by (simp add: ex_stock_strict_def ex_symbol)
  have 5: "map call_subject
        (fst (snd (trigger_manual_alert ideal_runtime ex_cfg_strict ex_monitor_bare ''t''
                     ex_provider_down ex_transport_up ''X'')))
       = [''BOT ALERT!: X'', ''BOT ALERT!: X'']"
    unfolding four [OF conjI [OF fs gs]] rs ex_manual_filter
    by (simp add: lt ss)
  from 1 2 3 4 5 show ?thesis by blast
qed

end
